theory Spec2Isabelle
  imports Main "HOL-Library.Sublist"
begin

section \<open>JavaScript values used by the reporter\<close>

text \<open>
  A JavaScript string is modelled as a \<open>string\<close> whose characters are the code units
  below 256 (ASCII and Latin-1). A thrown \<open>new Error(message)\<close> is the value
  \<open>Error message\<close> on the left of a sum; a normal return is on the right.
\<close>

datatype error = Error string

text \<open>\<open>String.prototype.startsWith(p)\<close>.\<close>

definition startsWith :: "string \<Rightarrow> string \<Rightarrow> bool" where
  "startsWith s p = (take (length p) s = p)"

text \<open>\<open>String.prototype.includes(p)\<close>: \<open>p\<close> occurs in \<open>s\<close> as a contiguous run.\<close>

fun includesStr :: "string \<Rightarrow> string \<Rightarrow> bool" where
  "includesStr [] p = (p = [])"
| "includesStr (c # s) p = (startsWith (c # s) p \<or> includesStr s p)"

text \<open>
  \<open>String.prototype.replace(pat, rep)\<close> with a string pattern: only the first
  occurrence is replaced (the replacement strings of the sources hold no \<open>$\<close> pattern).
\<close>

fun replace_first :: "string \<Rightarrow> string \<Rightarrow> string \<Rightarrow> string" where
  "replace_first pat rep [] = (if pat = [] then rep else [])"
| "replace_first pat rep (c # s) =
     (if startsWith (c # s) pat then rep @ drop (length pat) (c # s)
      else c # replace_first pat rep s)"

text \<open>
  \<open>String.prototype.trim()\<close> takes no argument: it removes white space (tab, line feed,
  vertical tab, form feed, carriage return, space, no-break space) from both ends, whatever
  is passed to it.
\<close>

definition isWhiteSpace :: "char \<Rightarrow> bool" where
  "isWhiteSpace c = (c \<in> set [CHR 0x09, CHR 0x0A, CHR 0x0B, CHR 0x0C, CHR 0x0D, CHR 0x20, CHR 0xA0])"

definition trim :: "string \<Rightarrow> string" where
  "trim s = rev (dropWhile isWhiteSpace (rev (dropWhile isWhiteSpace s)))"

text \<open>
  \<open>String.prototype.split(sep)\<close> for a one-character separator; \<open>cur\<close> holds the
  current segment, reversed. The empty string splits into one empty segment.
\<close>

fun split_from :: "char \<Rightarrow> string \<Rightarrow> string \<Rightarrow> string list" where
  "split_from sep cur [] = [rev cur]"
| "split_from sep cur (c # s) =
     (if c = sep then rev cur # split_from sep [] s else split_from sep (c # cur) s)"

definition split :: "char \<Rightarrow> string \<Rightarrow> string list" where
  "split sep s = split_from sep [] s"

text \<open>
  \<open>String.prototype.toLowerCase()\<close> on code units below 256: \<open>A\<close>-\<open>Z\<close> and the
  Latin-1 capitals (0xC0-0xDE without the multiplication sign 0xD7) move up by 32,
  which sets bit 5 of the code unit (it is clear in every capital).
\<close>

definition isUpperCase :: "char \<Rightarrow> bool" where
  "isUpperCase c =
     (let n = (of_char c :: nat)
      in (65 \<le> n \<and> n \<le> 90) \<or> (192 \<le> n \<and> n \<le> 222 \<and> n \<noteq> 215))"

fun lowerChar :: "char \<Rightarrow> char" where
  "lowerChar (Char b0 b1 b2 b3 b4 b5 b6 b7) =
     (if isUpperCase (Char b0 b1 b2 b3 b4 b5 b6 b7)
      then Char b0 b1 b2 b3 b4 True b6 b7
      else Char b0 b1 b2 b3 b4 b5 b6 b7)"

definition toLowerCase :: "string \<Rightarrow> string" where
  "toLowerCase s = map lowerChar s"

text \<open>\<open>Array.prototype.join(sep)\<close> on strings.\<close>

fun join :: "string \<Rightarrow> string list \<Rightarrow> string" where
  "join sep [] = []"
| "join sep [x] = x"
| "join sep (x # y # ys) = x @ sep @ join sep (y # ys)"

section \<open>GitHubService.extractRepoInfo\<close>

record repo_info =
  owner :: string
  repo :: string

text \<open>The first \<open>if\<close>/\<open>else if\<close>/\<open>else\<close> of \<open>extractRepoInfo\<close>: the value of \<open>parts\<close>.\<close>

definition repoParts :: "string \<Rightarrow> error + string list" where
  "repoParts repoUrl =
     (if startsWith repoUrl ''https://github.com/'' then
        Inr (split CHR ''/'' (trim (replace_first ''https://github.com/'' '''' repoUrl)))
      else if startsWith repoUrl ''git@github.com:'' then
        Inr (split CHR ''/''
               (replace_first ''.git'' '''' (replace_first ''git@github.com:'' '''' repoUrl)))
      else Inl (Error ''Invalid GitHub repository URL format''))"

definition extractRepoInfo :: "string \<Rightarrow> error + repo_info" where
  "extractRepoInfo repoUrl =
     (case repoParts repoUrl of
        Inl e \<Rightarrow> Inl e
      | Inr parts \<Rightarrow>
          if length parts \<noteq> 2 then
            Inl (Error ''Invalid GitHub repository URL. Expected format: owner/repo'')
          else Inr \<lparr>owner = parts ! 0, repo = replace_first ''.git'' '''' (parts ! 1)\<rparr>)"


section \<open>Data model\<close>

text \<open>
  A JavaScript number that counts lines is an \<open>int\<close>. A property that may be missing is
  an \<open>option\<close>; \<open>x || 0\<close> and \<open>x || ''\<close> read it with a default (a present \<open>0\<close> or
  empty string is falsy and yields the default as well).
\<close>

definition orZero :: "int option \<Rightarrow> int" where
  "orZero x = (case x of None \<Rightarrow> 0 | Some n \<Rightarrow> if n = 0 then 0 else n)"

definition orEmpty :: "string option \<Rightarrow> string" where
  "orEmpty x = (case x of None \<Rightarrow> '''' | Some s \<Rightarrow> if s = '''' then '''' else s)"

text \<open>One entry of a commit's \<open>files\<close> array.\<close>

record file_change =
  filename :: string
  status :: string
  file_additions :: "int option"
  file_deletions :: "int option"
  changes :: "int option"

text \<open>The \<open>data\<close> object handed to \<open>new Commit(data)\<close>: every property may be missing.\<close>

record raw_person =
  raw_name :: "string option"
  raw_email :: "string option"
  raw_date :: "string option"

record raw_stats =
  raw_total :: "int option"
  raw_additions :: "int option"
  raw_deletions :: "int option"

record raw_commit =
  raw_sha :: "string option"
  raw_message :: "string option"
  raw_author :: "raw_person option"
  raw_committer :: "raw_person option"
  raw_files :: "file_change list option"
  raw_stats :: "raw_stats option"

text \<open>An instance of the \<open>Commit\<close> class.\<close>

record person =
  name :: string
  email :: string
  date :: string

record stats =
  total :: int
  additions :: int
  deletions :: int

record commit =
  sha :: string
  message :: string
  author :: person
  committer :: person
  files :: "file_change list"
  stats :: stats

section \<open>Commit (the model class)\<close>

text \<open>\<open>data.author?.name || ''\<close> and its siblings.\<close>

definition personOf :: "raw_person option \<Rightarrow> person" where
  "personOf p =
     \<lparr>name = orEmpty (case p of None \<Rightarrow> None | Some q \<Rightarrow> raw_name q),
      email = orEmpty (case p of None \<Rightarrow> None | Some q \<Rightarrow> raw_email q),
      date = orEmpty (case p of None \<Rightarrow> None | Some q \<Rightarrow> raw_date q)\<rparr>"

text \<open>
  \<open>Commit.constructor\<close>. It has no \<open>throw\<close> and no comparison of the three statistics:
  each is read with \<open>|| 0\<close> on its own.
\<close>

definition Commit :: "raw_commit \<Rightarrow> commit" where
  "Commit data =
     \<lparr>sha = orEmpty (raw_sha data),
      message = orEmpty (raw_message data),
      author = personOf (raw_author data),
      committer = personOf (raw_committer data),
      files = (case raw_files data of None \<Rightarrow> [] | Some fs \<Rightarrow> fs),
      stats =
        \<lparr>total = orZero (case raw_stats data of None \<Rightarrow> None | Some s \<Rightarrow> raw_total s),
         additions = orZero (case raw_stats data of None \<Rightarrow> None | Some s \<Rightarrow> raw_additions s),
         deletions = orZero (case raw_stats data of None \<Rightarrow> None | Some s \<Rightarrow> raw_deletions s)\<rparr>\<rparr>"

text \<open>\<open>Commit.getNetChanges\<close> and \<open>Commit.getTotalFileChanges\<close>.\<close>

definition getNetChanges :: "commit \<Rightarrow> int" where
  "getNetChanges c = additions (stats c) - deletions (stats c)"

definition getTotalFileChanges :: "commit \<Rightarrow> int" where
  "getTotalFileChanges c = foldl (\<lambda>total file. total + orZero (changes file)) 0 (files c)"

text \<open>The \<open>changes\<close> object of \<open>Commit.getSummary\<close>.\<close>

record summary_changes =
  sum_additions :: int
  sum_deletions :: int
  sum_net :: int
  sum_total :: int

definition getSummaryChanges :: "commit \<Rightarrow> summary_changes" where
  "getSummaryChanges c =
     \<lparr>sum_additions = additions (stats c),
      sum_deletions = deletions (stats c),
      sum_net = getNetChanges c,
      sum_total = total (stats c)\<rparr>"

text \<open>\<open>Commit.toJSON\<close>: the same six properties, unchanged.\<close>

definition toJSON :: "commit \<Rightarrow> commit" where
  "toJSON c =
     \<lparr>sha = sha c, message = message c, author = author c, committer = committer c,
      files = files c, stats = stats c\<rparr>"

text \<open>
  The invariant the specification names for a commit's statistics (stated from the
  specification, to compare the constructor with).
\<close>

definition statsInvariant :: "commit \<Rightarrow> bool" where
  "statsInvariant c = (total (stats c) = additions (stats c) + deletions (stats c))"

text \<open>
  Commit data whose statistics disagree: one addition and one deletion, but a reported
  total of five.
\<close>

definition inconsistentData :: raw_commit where
  "inconsistentData =
     \<lparr>raw_sha = Some ''abc123'', raw_message = Some ''Add new feature'',
      raw_author = None, raw_committer = None, raw_files = None,
      raw_stats = Some \<lparr>raw_total = Some 5, raw_additions = Some 1, raw_deletions = Some 1\<rparr>\<rparr>"

section \<open>The heuristic categorizer: generateBasicAnalysis\<close>

text \<open>
  \<open>AIAnalysisService.generateBasicAnalysis\<close> and \<open>ReportService.generateBasicAnalysis\<close>
  have the same body. The bullet blocks it pushes, in the order of the source:
\<close>

definition authBlock :: "string list" where
  "authBlock =
     [''* Authentication/Authorization changes'',
      ''  - Implemented or modified user authentication system'',
      ''  - Updated security protocols or access controls'']"

definition apiBlock :: "string list" where
  "apiBlock =
     [''* API integration or endpoint changes'',
      ''  - Added new API endpoints or modified existing ones'',
      ''  - Integrated external services or third-party APIs'',
      ''  - Updated API configuration or connection settings'']"

definition uiBlock :: "string list" where
  "uiBlock =
     [''* UI/UX design updates'',
      ''  - Modified user interface components and layouts'',
      ''  - Updated styling, themes, or visual elements'',
      ''  - Improved user experience and interface responsiveness'']"

definition testBlock :: "string list" where
  "testBlock =
     [''* Testing improvements'',
      ''  - Added or updated test cases and test coverage'',
      ''  - Implemented automated testing or quality assurance'']"

definition docBlock :: "string list" where
  "docBlock =
     [''* Documentation updates'',
      ''  - Updated project documentation and guides'',
      ''  - Improved code comments or technical documentation'']"

definition envBlock :: "string list" where
  "envBlock =
     [''* Environment configuration changes'',
      ''  - Updated environment variables and configuration settings'',
      ''  - Modified deployment or development environment setup'']"

definition packageBlock :: "string list" where
  "packageBlock =
     [''* Dependency updates'',
      ''  - Updated project dependencies and libraries'',
      ''  - Added new packages or updated existing ones'']"

definition fullStackBlock :: "string list" where
  "fullStackBlock =
     [''* Full-stack development changes'',
      ''  - Worked on both frontend and backend components'',
      ''  - Implemented end-to-end features or functionality'']"

definition backendBlock :: "string list" where
  "backendBlock =
     [''* Backend functionality updates'',
      ''  - Modified server-side logic and business rules'',
      ''  - Updated database operations or data processing'']"

definition frontendBlock :: "string list" where
  "frontendBlock =
     [''* Frontend development changes'',
      ''  - Updated client-side components and user interface'',
      ''  - Modified user interactions and frontend logic'']"

definition generalBlock :: "string list" where
  "generalBlock =
     [''* General code changes and improvements'',
      ''  - Made general code improvements and optimizations'',
      ''  - Updated existing functionality or fixed issues'']"

text \<open>\<open>files.some(f => f.filename.toLowerCase().includes(word))\<close>.\<close>

definition someFileIncludes :: "file_change list \<Rightarrow> string \<Rightarrow> bool" where
  "someFileIncludes fs word = (\<exists>f \<in> set fs. includesStr (toLowerCase (filename f)) word)"

text \<open>
  \<open>files.filter(f => exts.some(ext => f.filename.toLowerCase().includes(ext)))\<close>: the
  extension is looked for anywhere in the lower-cased name, not at its end.
\<close>

definition filesWithExt :: "string list \<Rightarrow> file_change list \<Rightarrow> file_change list" where
  "filesWithExt exts fs =
     filter (\<lambda>f. \<exists>ext \<in> set exts. includesStr (toLowerCase (filename f)) ext) fs"

definition backendFiles :: "commit \<Rightarrow> file_change list" where
  "backendFiles c = filesWithExt [''.js'', ''.py'', ''.java'', ''.php''] (files c)"

definition frontendFiles :: "commit \<Rightarrow> file_change list" where
  "frontendFiles c = filesWithExt [''.jsx'', ''.tsx'', ''.vue'', ''.html'', ''.css''] (files c)"

text \<open>The \<open>analysis\<close> array after the seven topic tests, each pushing its block.\<close>

definition topicLines :: "commit \<Rightarrow> string list" where
  "topicLines c =
     (let commitMessage = toLowerCase (message c); fs = files c
      in (if someFileIncludes fs ''auth'' \<or> includesStr commitMessage ''auth''
          then authBlock else [])
       @ (if someFileIncludes fs ''api'' \<or> includesStr commitMessage ''api''
          then apiBlock else [])
       @ (if someFileIncludes fs ''ui'' \<or> someFileIncludes fs ''css'' \<or> someFileIncludes fs ''jsx''
          then uiBlock else [])
       @ (if someFileIncludes fs ''test'' then testBlock else [])
       @ (if someFileIncludes fs ''readme'' then docBlock else [])
       @ (if someFileIncludes fs ''env'' then envBlock else [])
       @ (if someFileIncludes fs ''package'' then packageBlock else []))"

text \<open>The block pushed by the \<open>if\<close>/\<open>else if\<close>/\<open>else if\<close> on the two extension buckets.\<close>

definition stackLines :: "commit \<Rightarrow> string list" where
  "stackLines c =
     (if length (backendFiles c) > 0 \<and> length (frontendFiles c) > 0 then fullStackBlock
      else if length (backendFiles c) > 0 then backendBlock
      else if length (frontendFiles c) > 0 then frontendBlock
      else [])"

definition analysisLines :: "commit \<Rightarrow> string list" where
  "analysisLines c =
     (let analysis = topicLines c @ stackLines c
      in if length analysis = 0 then generalBlock else analysis)"

text \<open>The returned text: \<open>analysis.join('\n')\<close>.\<close>

definition generateBasicAnalysis :: "commit \<Rightarrow> string" where
  "generateBasicAnalysis c = join [CHR 0x0A] (analysisLines c)"

text \<open>Two commits used to exercise the categorizer.\<close>

definition somePerson :: person where
  "somePerson = \<lparr>name = ''John Doe'', email = ''john@example.com'', date = ''2025-01-15T14:30:25Z''\<rparr>"

definition authCommit :: commit where
  "authCommit =
     \<lparr>sha = ''abc123'', message = ''add auth'', author = somePerson, committer = somePerson,
      files = [\<lparr>filename = ''src/auth/login.js'', status = ''added'',
                file_additions = Some 100, file_deletions = Some 0, changes = Some 100\<rparr>],
      stats = \<lparr>total = 100, additions = 100, deletions = 0\<rparr>\<rparr>"

definition jsxCommit :: commit where
  "jsxCommit =
     \<lparr>sha = ''def456'', message = ''tidy'', author = somePerson, committer = somePerson,
      files = [\<lparr>filename = ''App.jsx'', status = ''modified'',
                file_additions = Some 8, file_deletions = Some 4, changes = Some 12\<rparr>],
      stats = \<lparr>total = 12, additions = 8, deletions = 4\<rparr>\<rparr>"

section \<open>Filename synthesis\<close>

text \<open>
  The current time, broken down in the zone the function reads it in (local time for
  \<open>moment()\<close>, UTC for \<open>new Date().toISOString()\<close>). The fields are in their calendar
  range: \<open>year\<close> below 10000, \<open>millisecond\<close> below 1000, the others below 100.
\<close>

record clock_time =
  year :: nat
  month :: nat
  day :: nat
  hour :: nat
  minute :: nat
  second :: nat
  millisecond :: nat

definition digitChar :: "nat \<Rightarrow> char" where
  "digitChar d = ''0123456789'' ! (d mod 10)"

text \<open>Zero-padded decimal fields, as \<open>YYYY\<close> and \<open>MM\<close>, \<open>DD\<close>, \<open>HH\<close>, \<open>mm\<close>, \<open>ss\<close> print them.\<close>

definition pad2 :: "nat \<Rightarrow> string" where
  "pad2 n = [digitChar (n div 10), digitChar n]"

definition pad4 :: "nat \<Rightarrow> string" where
  "pad4 n = pad2 (n div 100) @ pad2 n"

text \<open>\<open>moment().format('YYYY-MM-DD-HH-mm-ss')\<close>: the milliseconds are not printed.\<close>

definition momentStamp :: "clock_time \<Rightarrow> string" where
  "momentStamp now =
     pad4 (year now) @ ''-'' @ pad2 (month now) @ ''-'' @ pad2 (day now) @ ''-''
     @ pad2 (hour now) @ ''-'' @ pad2 (minute now) @ ''-'' @ pad2 (second now)"

text \<open>
  \<open>new Date().toISOString().split('T')[0]\<close>: the ISO string is
  \<open>YYYY-MM-DDTHH:mm:ss.sssZ\<close>, and only what precedes the \<open>T\<close> is kept.
\<close>

definition toISOString :: "clock_time \<Rightarrow> string" where
  "toISOString now =
     pad4 (year now) @ ''-'' @ pad2 (month now) @ ''-'' @ pad2 (day now) @ ''T''
     @ pad2 (hour now) @ '':'' @ pad2 (minute now) @ '':'' @ pad2 (second now) @ ''.''
     @ [digitChar (millisecond now div 100), digitChar (millisecond now div 10),
        digitChar (millisecond now)] @ ''Z''"

definition isoDate :: "clock_time \<Rightarrow> string" where
  "isoDate now = split CHR ''T'' (toISOString now) ! 0"

text \<open>\<open>ReportService.generateFilename\<close>: the extension is a two-way choice.\<close>

definition ReportService_generateFilename ::
  "clock_time \<Rightarrow> string \<Rightarrow> string \<Rightarrow> string \<Rightarrow> string" where
  "ReportService_generateFilename now reportType dateRange format =
     (let timestamp = momentStamp now;
          extension = (if format = ''markdown'' then ''md'' else ''txt'')
      in reportType @ ''-report-'' @ dateRange @ ''-'' @ timestamp @ ''.'' @ extension)"

text \<open>
  \<open>ReportView.getFileExtension\<close>: a lookup in an object literal with \<open>|| 'txt'\<close>. The two
  lower-case names that every object inherits are found as well; the result is modelled
  as the text the template literal of \<open>generateFilename\<close> prints for it.
\<close>

definition getFileExtension :: "string \<Rightarrow> string" where
  "getFileExtension format =
     (case map_of [(''text'', ''txt''), (''markdown'', ''md''), (''html'', ''html''),
                   (''json'', ''json''),
                   (''constructor'', ''function Object() { [native code] }''),
                   (''__proto__'', ''[object Object]'')] (toLowerCase format) of
        Some e \<Rightarrow> e
      | None \<Rightarrow> ''txt'')"

text \<open>\<open>ReportView.generateFilename\<close>.\<close>

definition ReportView_generateFilename ::
  "clock_time \<Rightarrow> string \<Rightarrow> string \<Rightarrow> string \<Rightarrow> string" where
  "ReportView_generateFilename now reportType dateRange format =
     (let timestamp = isoDate now;
          extension = getFileExtension format
      in reportType @ ''-report-'' @ dateRange @ ''-'' @ timestamp @ ''.'' @ extension)"

text \<open>
  Three instants of one day: 14:30:25.000, the end of the same second, and fifteen seconds
  later.
\<close>

definition afternoon :: clock_time where
  "afternoon = \<lparr>year = 2025, month = 1, day = 15, hour = 14, minute = 30, second = 25,
                 millisecond = 0\<rparr>"

definition afternoonSameSecond :: clock_time where
  "afternoonSameSecond = \<lparr>year = 2025, month = 1, day = 15, hour = 14, minute = 30, second = 25,
                           millisecond = 999\<rparr>"

definition afternoonLater :: clock_time where
  "afternoonLater = \<lparr>year = 2025, month = 1, day = 15, hour = 14, minute = 30, second = 40,
                      millisecond = 0\<rparr>"

text \<open>The calendar range of the clock fields.\<close>

definition clockInRange :: "clock_time \<Rightarrow> bool" where
  "clockInRange now =
     (year now < 10000 \<and> month now < 100 \<and> day now < 100 \<and> hour now < 100
      \<and> minute now < 100 \<and> second now < 100 \<and> millisecond now < 1000)"

text \<open>Two readings of the clock within one second, and within one day.\<close>

definition sameSecond :: "clock_time \<Rightarrow> clock_time \<Rightarrow> bool" where
  "sameSecond a b =
     (year a = year b \<and> month a = month b \<and> day a = day b \<and> hour a = hour b
      \<and> minute a = minute b \<and> second a = second b)"

definition sameDay :: "clock_time \<Rightarrow> clock_time \<Rightarrow> bool" where
  "sameDay a b = (year a = year b \<and> month a = month b \<and> day a = day b)"

section \<open>Aggregation: getCommitStatistics and the Report rollups\<close>

text \<open>
  A plain object used as a dictionary is the list of its own properties in insertion
  order. Reading a key that names a property of \<open>Object.prototype\<close> finds the inherited
  (truthy) value, not \<open>undefined\<close>.
\<close>

type_synonym 'v js_object = "(string \<times> 'v) list"

definition inheritedKeys :: "string list" where
  "inheritedKeys =
     [''constructor'', ''__defineGetter__'', ''__defineSetter__'', ''hasOwnProperty'',
      ''__lookupGetter__'', ''__lookupSetter__'', ''isPrototypeOf'', ''propertyIsEnumerable'',
      ''toString'', ''valueOf'', ''__proto__'', ''toLocaleString'']"

text \<open>
  \<open>Object.values\<close> lists the properties whose key is an array index (a canonical decimal
  numeral below \<open>2^32 - 1\<close>) first, in ascending numeric order, then the others in
  insertion order.
\<close>

definition isDigit :: "char \<Rightarrow> bool" where
  "isDigit c = (48 \<le> (of_char c :: int) \<and> (of_char c :: int) \<le> 57)"

definition readDecimal :: "string \<Rightarrow> int" where
  "readDecimal s = foldl (\<lambda>a c. 10 * a + (of_char c - 48)) 0 s"

definition isArrayIndex :: "string \<Rightarrow> bool" where
  "isArrayIndex s =
     (s \<noteq> [] \<and> list_all isDigit s \<and> (s = ''0'' \<or> hd s \<noteq> CHR ''0'')
      \<and> readDecimal s < 4294967295)"

definition objectValues :: "'v js_object \<Rightarrow> 'v list" where
  "objectValues obj =
     map snd (sort_key (\<lambda>kv. readDecimal (fst kv)) (filter (\<lambda>kv. isArrayIndex (fst kv)) obj)
              @ filter (\<lambda>kv. \<not> isArrayIndex (fst kv)) obj)"

text \<open>
  \<open>xs.sort((a, b) => b.f - a.f)\<close>: \<open>Array.prototype.sort\<close> is stable, and this comparator
  orders by descending \<open>f\<close>; \<open>sort_key\<close> is a stable sort by ascending key.
\<close>

definition sortDescending :: "('a \<Rightarrow> int) \<Rightarrow> 'a list \<Rightarrow> 'a list" where
  "sortDescending f xs = sort_key (\<lambda>x. - f x) xs"

record contributor =
  c_name :: string
  c_email :: string
  c_commits :: nat
  c_additions :: int
  c_deletions :: int

record file_stat =
  fs_filename :: string
  fs_changes :: int
  fs_additions :: int
  fs_deletions :: int
  fs_commits :: nat

text \<open>
  The body of \<open>commits.forEach\<close> over \<open>contributors\<close>. For an author named like an inherited
  property no entry is created (\<open>!contributors[author]\<close> is false) and the three updates
  land on the inherited value, outside the object's own properties.
\<close>

definition addContribution :: "contributor js_object \<Rightarrow> commit \<Rightarrow> contributor js_object" where
  "addContribution contributors commit =
     (let a = name (author commit)
      in if a \<in> set inheritedKeys then contributors
         else
           let created =
                 (if map_of contributors a = None
                  then contributors @ [(a, \<lparr>c_name = a, c_email = email (author commit),
                                            c_commits = 0, c_additions = 0, c_deletions = 0\<rparr>)]
                  else contributors)
           in map (\<lambda>kv. if fst kv = a
                          then (fst kv, (snd kv)\<lparr>c_commits := c_commits (snd kv) + 1,
                                  c_additions := c_additions (snd kv) + additions (stats commit),
                                  c_deletions := c_deletions (snd kv) + deletions (stats commit)\<rparr>)
                          else kv) created)"

definition contributorsOf :: "commit list \<Rightarrow> contributor js_object" where
  "contributorsOf commits = foldl addContribution [] commits"

text \<open>The body of the inner \<open>commit.files.forEach\<close> over \<open>fileStats\<close>.\<close>

definition addFileStat :: "file_stat js_object \<Rightarrow> file_change \<Rightarrow> file_stat js_object" where
  "addFileStat fileStats file =
     (let k = filename file
      in if k \<in> set inheritedKeys then fileStats
         else
           let created =
                 (if map_of fileStats k = None
                  then fileStats @ [(k, \<lparr>fs_filename = k, fs_changes = 0, fs_additions = 0,
                                         fs_deletions = 0, fs_commits = 0\<rparr>)]
                  else fileStats)
           in map (\<lambda>kv. if fst kv = k
                          then (fst kv, (snd kv)\<lparr>fs_changes := fs_changes (snd kv) + orZero (changes file),
                                  fs_additions := fs_additions (snd kv) + orZero (file_additions file),
                                  fs_deletions := fs_deletions (snd kv) + orZero (file_deletions file),
                                  fs_commits := fs_commits (snd kv) + 1\<rparr>)
                          else kv) created)"

definition fileStatsOf :: "commit list \<Rightarrow> file_stat js_object" where
  "fileStatsOf commits = foldl (\<lambda>fileStats commit. foldl addFileStat fileStats (files commit)) [] commits"

text \<open>\<open>Report.getTopContributors(limit)\<close> (\<open>limit\<close> defaults to 5) and \<open>Report.getFileStatistics\<close>.\<close>

definition getTopContributors :: "commit list \<Rightarrow> nat \<Rightarrow> contributor list" where
  "getTopContributors commits limit =
     take limit (sortDescending (\<lambda>c. int (c_commits c)) (objectValues (contributorsOf commits)))"

definition getFileStatistics :: "commit list \<Rightarrow> file_stat list" where
  "getFileStatistics commits = sortDescending fs_changes (objectValues (fileStatsOf commits))"

text \<open>\<open>Math.round(x / n)\<close> for integers \<open>x\<close> and \<open>n > 0\<close>: halves round up.\<close>

definition roundDiv :: "int \<Rightarrow> int \<Rightarrow> int" where
  "roundDiv x n = (2 * x + n) div (2 * n)"

record aggregate =
  totalCommits :: nat
  totalAdditions :: int
  totalDeletions :: int
  netChanges :: int
  averageChangesPerCommit :: int
  topContributors :: "contributor list"
  fileStatistics :: "file_stat list"

text \<open>
  \<open>CommitController.getCommitStatistics\<close>. The two rollups repeat the bodies of the
  \<open>Report\<close> methods and then cut them: \<open>.slice(0, 5)\<close> and \<open>.slice(0, 10)\<close>.
\<close>

definition getCommitStatistics :: "commit list \<Rightarrow> aggregate" where
  "getCommitStatistics commits =
     (if length commits = 0 then
        \<lparr>totalCommits = 0, totalAdditions = 0, totalDeletions = 0, netChanges = 0,
         averageChangesPerCommit = 0, topContributors = [], fileStatistics = []\<rparr>
      else
        let totalCommits = length commits;
            totalAdditions = foldl (\<lambda>sum commit. sum + additions (stats commit)) 0 commits;
            totalDeletions = foldl (\<lambda>sum commit. sum + deletions (stats commit)) 0 commits;
            netChanges = totalAdditions - totalDeletions;
            averageChangesPerCommit = roundDiv (totalAdditions + totalDeletions) (int totalCommits);
            topContributors =
              take 5 (sortDescending (\<lambda>c. int (c_commits c)) (objectValues (contributorsOf commits)));
            fileStatistics =
              take 10 (sortDescending fs_changes (objectValues (fileStatsOf commits)))
        in \<lparr>totalCommits = totalCommits, totalAdditions = totalAdditions,
            totalDeletions = totalDeletions, netChanges = netChanges,
            averageChangesPerCommit = averageChangesPerCommit,
            topContributors = topContributors, fileStatistics = fileStatistics\<rparr>)"

text \<open>
  A history of six commits by six authors; the last commit touches eleven files, the
  others none.
\<close>

definition commitBy :: "string \<Rightarrow> file_change list \<Rightarrow> commit" where
  "commitBy a fs =
     \<lparr>sha = ''sha-'' @ a, message = ''work'',
      author = \<lparr>name = a, email = a @ ''@example.com'', date = ''2025-01-15T14:30:25Z''\<rparr>,
      committer = \<lparr>name = a, email = a @ ''@example.com'', date = ''2025-01-15T14:30:25Z''\<rparr>,
      files = fs, stats = \<lparr>total = 3, additions = 2, deletions = 1\<rparr>\<rparr>"

definition touched :: "string \<Rightarrow> file_change" where
  "touched f = \<lparr>filename = f, status = ''modified'', file_additions = Some 2,
                file_deletions = Some 1, changes = Some 3\<rparr>"

definition sixAuthors :: "commit list" where
  "sixAuthors =
     map (\<lambda>a. commitBy a []) [''ann'', ''bob'', ''cy'', ''dee'', ''eve'']
     @ [commitBy ''fay''
          (map touched [''f01'', ''f02'', ''f03'', ''f04'', ''f05'', ''f06'', ''f07'', ''f08'',
                        ''f09'', ''f10'', ''f11''])]"

section \<open>Report rendering: generateQuickReport and generateEnhancedReport\<close>

text \<open>A template literal prints an integer in decimal; a missing number prints \<open>undefined\<close>.\<close>

fun showNat :: "nat \<Rightarrow> string" where
  "showNat n = (if n < 10 then [digitChar n] else showNat (n div 10) @ [digitChar n])"

declare showNat.simps [simp del]

definition showInt :: "int \<Rightarrow> string" where
  "showInt i = (if i < 0 then ''-'' @ showNat (nat (- i)) else showNat (nat i))"

definition showNumber :: "int option \<Rightarrow> string" where
  "showNumber x = (case x of None \<Rightarrow> ''undefined'' | Some i \<Rightarrow> showInt i)"

definition newline :: string where
  "newline = [CHR 0x0A]"

text \<open>
  \<open>ReportService.getStatusEmoji\<close>: \<open>statusMap[status] || '[CHANGED]'\<close>. A status named like
  an inherited property finds that property; the result is modelled as the text the
  template literal prints for it.
\<close>

definition getStatusEmoji :: "string \<Rightarrow> string" where
  "getStatusEmoji st =
     (case map_of [(''added'', ''[ADDED]''), (''modified'', ''[MODIFIED]''),
                   (''removed'', ''[REMOVED]''), (''renamed'', ''[RENAMED]'')] st of
        Some e \<Rightarrow> e
      | None \<Rightarrow>
          if st = ''__proto__'' then ''[object Object]''
          else if st \<in> set inheritedKeys then
            ''function '' @ (if st = ''constructor'' then ''Object'' else st) @ ''() { [native code] }''
          else ''[CHANGED]'')"

text \<open>
  The pieces one pass of the \<open>for\<close> loop appends to \<open>report\<close>, each chosen by
  \<open>format === 'markdown'\<close>. \<open>hms\<close> stands for \<open>moment(date).format('HH:mm:ss')\<close>, the
  rendering of a date string by the moment library (\<open>Commit.getFormattedDate\<close>).
\<close>

definition messageLine :: "string \<Rightarrow> nat \<Rightarrow> commit \<Rightarrow> string" where
  "messageLine format i commit =
     (let msg = trim (message commit)
      in if format = ''markdown''
         then ''## Commit '' @ showNat (i + 1) @ '': '' @ msg @ newline @ newline
         else ''Commit '' @ showNat (i + 1) @ '': '' @ msg @ newline)"

definition authorLine :: "(string \<Rightarrow> string) \<Rightarrow> string \<Rightarrow> commit \<Rightarrow> string" where
  "authorLine hms format commit =
     (let a = name (author commit); timeStr = hms (date (author commit))
      in if format = ''markdown''
         then ''**Author:** '' @ a @ '' | **Time:** '' @ timeStr @ newline @ newline
         else ''Author: '' @ a @ '' | Time: '' @ timeStr @ newline)"

definition changesLine :: "string \<Rightarrow> commit \<Rightarrow> string" where
  "changesLine format commit =
     (let st = stats commit
      in if format = ''markdown''
         then ''**Changes:** +'' @ showInt (additions st) @ '' -'' @ showInt (deletions st)
              @ '' lines'' @ newline @ newline
         else ''Changes: +'' @ showInt (additions st) @ '' -'' @ showInt (deletions st)
              @ '' lines'' @ newline)"

definition fileLine :: "string \<Rightarrow> file_change \<Rightarrow> string" where
  "fileLine format file =
     (let statusEmoji = getStatusEmoji (status file);
          fname = filename file;
          chg = changes file
      in if format = ''markdown''
         then ''- '' @ statusEmoji @ '' `'' @ fname @ ''` ('' @ showNumber chg @ '' changes)'' @ newline
         else ''  '' @ statusEmoji @ '' '' @ fname @ '' ('' @ showNumber chg @ '' changes)'' @ newline)"

text \<open>The \<open>if (commit.files && commit.files.length > 0)\<close> block with its inner \<open>for\<close> loop.\<close>

definition changedFiles :: "string \<Rightarrow> commit \<Rightarrow> string" where
  "changedFiles format commit =
     (if length (files commit) > 0 then
        foldl (\<lambda>report file. report @ fileLine format file)
          (if format = ''markdown'' then ''**Changed Files:**'' @ newline
           else ''Changed Files:'' @ newline)
          (files commit)
        @ newline
      else [])"

text \<open>The closing rule: \<open>'-'.repeat(50)\<close> for \<open>text\<close>, \<open>---\<close> for anything else.\<close>

definition separator :: "string \<Rightarrow> string" where
  "separator format =
     (if format = ''text'' then replicate 50 CHR ''-'' @ newline @ newline
      else ''---'' @ newline @ newline)"

definition heading :: "string \<Rightarrow> string \<Rightarrow> string" where
  "heading format dateRange =
     (if format = ''markdown''
      then ''# Hey, on '' @ dateRange @ '' you did these changes:'' @ newline @ newline
      else ''Hey, on '' @ dateRange @ '' you did these changes:'' @ newline @ newline)"

text \<open>Everything one iteration of \<open>generateQuickReport\<close>'s loop appends for \<open>commits[i]\<close>.\<close>

definition quickBlock :: "(string \<Rightarrow> string) \<Rightarrow> string \<Rightarrow> nat \<Rightarrow> raw_commit \<Rightarrow> string" where
  "quickBlock hms format i data =
     (let commit = Commit data
      in messageLine format i commit @ authorLine hms format commit @ changesLine format commit
         @ changedFiles format commit @ separator format)"

text \<open>The loop \<open>for (let i = 0; i < commits.length; i++)\<close>, from index \<open>i\<close> on.\<close>

fun quickLoop ::
  "(string \<Rightarrow> string) \<Rightarrow> string \<Rightarrow> nat \<Rightarrow> raw_commit list \<Rightarrow> string \<Rightarrow> string" where
  "quickLoop hms format i [] report = report"
| "quickLoop hms format i (data # rest) report =
     quickLoop hms format (i + 1) rest (report @ quickBlock hms format i data)"

definition generateQuickReport ::
  "(string \<Rightarrow> string) \<Rightarrow> raw_commit list \<Rightarrow> string \<Rightarrow> string \<Rightarrow> string" where
  "generateQuickReport hms commits dateRange format =
     (if length commits = 0 then ''No commits found for '' @ dateRange
      else quickLoop hms format 0 commits (heading format dateRange))"

text \<open>
  \<open>generateEnhancedReport\<close> adds the analysis between the statistics and the files:
  the caller's \<open>aiAnalyzer\<close> when one is given, \<open>generateBasicAnalysis\<close> otherwise.
\<close>

definition analysisPart :: "string \<Rightarrow> (commit \<Rightarrow> string) option \<Rightarrow> commit \<Rightarrow> string" where
  "analysisPart format aiAnalyzer commit =
     (let analysis = (case aiAnalyzer of Some analyze \<Rightarrow> analyze commit
                      | None \<Rightarrow> generateBasicAnalysis commit)
      in if format = ''markdown''
         then ''**What you accomplished:**'' @ newline @ analysis @ newline @ newline
         else ''What you accomplished:'' @ newline @ analysis @ newline)"

definition enhancedBlock ::
  "(string \<Rightarrow> string) \<Rightarrow> (commit \<Rightarrow> string) option \<Rightarrow> string \<Rightarrow> nat \<Rightarrow> raw_commit \<Rightarrow> string" where
  "enhancedBlock hms aiAnalyzer format i data =
     (let commit = Commit data
      in messageLine format i commit @ authorLine hms format commit @ changesLine format commit
         @ analysisPart format aiAnalyzer commit
         @ changedFiles format commit @ separator format)"

fun enhancedLoop ::
  "(string \<Rightarrow> string) \<Rightarrow> (commit \<Rightarrow> string) option \<Rightarrow> string \<Rightarrow> nat \<Rightarrow> raw_commit list
   \<Rightarrow> string \<Rightarrow> string" where
  "enhancedLoop hms aiAnalyzer format i [] report = report"
| "enhancedLoop hms aiAnalyzer format i (data # rest) report =
     enhancedLoop hms aiAnalyzer format (i + 1) rest
       (report @ enhancedBlock hms aiAnalyzer format i data)"

definition generateEnhancedReport ::
  "(string \<Rightarrow> string) \<Rightarrow> raw_commit list \<Rightarrow> string \<Rightarrow> string \<Rightarrow> (commit \<Rightarrow> string) option
   \<Rightarrow> string" where
  "generateEnhancedReport hms commits dateRange format aiAnalyzer =
     (if length commits = 0 then ''No commits found for '' @ dateRange
      else enhancedLoop hms aiAnalyzer format 0 commits (heading format dateRange))"

text \<open>
  The decoration tokens the specification names (heading markers, bold markers and similar
  punctuation): the characters \<open>#\<close>, \<open>*\<close>, the backquote, \<open>-\<close>, the space and the line
  break. \<open>undecorated\<close> erases them (stated from the specification, to compare the two
  renderings).
\<close>

definition isDecoration :: "char \<Rightarrow> bool" where
  "isDecoration c = (c \<in> set [CHR ''#'', CHR ''*'', CHR 0x60, CHR ''-'', CHR '' '', CHR 0x0A])"

definition undecorated :: "string \<Rightarrow> string" where
  "undecorated s = filter (\<lambda>c. \<not> isDecoration c) s"

text \<open>Two commits as the detail endpoint yields them, and a rendering of the time of day.\<close>

definition rawAuth :: raw_commit where
  "rawAuth =
     \<lparr>raw_sha = Some ''abc123'', raw_message = Some ''add auth'',
      raw_author = Some \<lparr>raw_name = Some ''John Doe'', raw_email = Some ''john@example.com'',
                         raw_date = Some ''2025-01-15T14:30:25Z''\<rparr>,
      raw_committer = None,
      raw_files = Some [\<lparr>filename = ''src/auth/login.js'', status = ''added'',
                         file_additions = Some 100, file_deletions = Some 0, changes = Some 100\<rparr>],
      raw_stats = Some \<lparr>raw_total = Some 100, raw_additions = Some 100, raw_deletions = Some 0\<rparr>\<rparr>"

definition rawFix :: raw_commit where
  "rawFix =
     \<lparr>raw_sha = Some ''def456'', raw_message = Some ''Fix bug in login validation'',
      raw_author = Some \<lparr>raw_name = Some ''John Doe'', raw_email = Some ''john@example.com'',
                         raw_date = Some ''2025-01-15T16:45:12Z''\<rparr>,
      raw_committer = None, raw_files = None,
      raw_stats = Some \<lparr>raw_total = Some 20, raw_additions = Some 12, raw_deletions = Some 8\<rparr>\<rparr>"

definition utcTime :: "string \<Rightarrow> string" where
  "utcTime d = take 8 (drop 11 d)"

section \<open>GitHubService: commit retrieval\<close>

text \<open>
  The \<open>options\<close> object of \<open>getCommits\<close> and the query parameters it builds:
  \<open>{page, per_page: perPage, sha: options.branch || 'main', ...options}\<close>. The spread
  comes last, so a \<open>per_page\<close> present in \<open>options\<close> is the one sent.
\<close>

record options =
  opt_per_page :: "nat option"
  opt_branch :: "string option"
  opt_since :: "string option"
  opt_until :: "string option"
  opt_author :: "string option"

record params =
  q_page :: nat
  q_per_page :: nat
  q_sha :: string
  q_branch :: "string option"
  q_since :: "string option"
  q_until :: "string option"
  q_author :: "string option"

definition perPageOf :: "options \<Rightarrow> nat" where
  "perPageOf opts = (case opt_per_page opts of None \<Rightarrow> 100 | Some n \<Rightarrow> if n = 0 then 100 else n)"

definition requestParams :: "options \<Rightarrow> nat \<Rightarrow> nat \<Rightarrow> params" where
  "requestParams opts perPage page =
     \<lparr>q_page = page,
      q_per_page = (case opt_per_page opts of None \<Rightarrow> perPage | Some n \<Rightarrow> n),
      q_sha = (case opt_branch opts of None \<Rightarrow> ''main'' | Some b \<Rightarrow> if b = '''' then ''main'' else b),
      q_branch = opt_branch opts,
      q_since = opt_since opts,
      q_until = opt_until opts,
      q_author = opt_author opts\<rparr>"

text \<open>
  The body of a successful detail response, as far as \<open>getCommitDetails\<close> reads it. The
  nested objects it dereferences are there; their leaves may be missing.
\<close>

record api_file =
  api_filename :: string
  api_status :: string
  api_additions :: "int option"
  api_deletions :: "int option"
  api_changes :: "int option"

record api_commit =
  api_sha :: "string option"
  api_message :: "string option"
  api_author :: raw_person
  api_committer :: raw_person
  api_files :: "api_file list"
  api_stats :: raw_stats

text \<open>
  The upstream API as the service sees it through \<open>axios.get\<close>: a request either fails
  with a message (also when the body lacks an object the code dereferences) or yields
  data. A page of the list endpoint is the list of its items' \<open>sha\<close>; missing data is the
  empty page.
\<close>

record upstream =
  listCommits :: "string \<Rightarrow> string \<Rightarrow> params \<Rightarrow> string + string list"
  getCommit :: "string \<Rightarrow> string \<Rightarrow> string \<Rightarrow> string + api_commit"

text \<open>\<open>GitHubService.getCommitDetails\<close>: the \<open>catch\<close> throws again, it does not return \<open>null\<close>.\<close>

definition getCommitDetails :: "upstream \<Rightarrow> string \<Rightarrow> string \<Rightarrow> string \<Rightarrow> error + raw_commit" where
  "getCommitDetails up own rep s =
     (case getCommit up own rep s of
        Inl m \<Rightarrow> Inl (Error (''Error fetching commit details for '' @ s @ '': '' @ m))
      | Inr commitData \<Rightarrow>
          Inr \<lparr>raw_sha = api_sha commitData,
               raw_message = api_message commitData,
               raw_author = Some (api_author commitData),
               raw_committer = Some (api_committer commitData),
               raw_files = Some (map (\<lambda>f. \<lparr>filename = api_filename f, status = api_status f,
                                              file_additions = Some (orZero (api_additions f)),
                                              file_deletions = Some (orZero (api_deletions f)),
                                              changes = Some (orZero (api_changes f))\<rparr>)
                                     (api_files commitData)),
               raw_stats = Some (api_stats commitData)\<rparr>)"

text \<open>
  The inner loop \<open>for (const commit of pageCommits)\<close>. A detail object is always truthy,
  so \<open>if (detailedCommit)\<close> always pushes; a throw of \<open>getCommitDetails\<close> leaves the loop.
\<close>

fun detailLoop ::
  "upstream \<Rightarrow> string \<Rightarrow> string \<Rightarrow> string list \<Rightarrow> raw_commit list \<Rightarrow> error + raw_commit list" where
  "detailLoop up own rep [] commits = Inr commits"
| "detailLoop up own rep (s # rest) commits =
     (case getCommitDetails up own rep s of
        Inl e \<Rightarrow> Inl e
      | Inr detailedCommit \<Rightarrow> detailLoop up own rep rest (commits @ [detailedCommit]))"

text \<open>
  The loop \<open>while (true)\<close> of \<open>GitHubService.getCommits\<close>. It may run for ever against an
  upstream whose pages are all full, so it takes fuel: \<open>None\<close> is "not returned yet".
  The \<open>try\<close> encloses the list request and the detail loop; its \<open>catch\<close> throws
  \<open>Error fetching commits: ...\<close> with the message of whatever failed.
\<close>

fun getCommitsLoop ::
  "nat \<Rightarrow> upstream \<Rightarrow> string \<Rightarrow> string \<Rightarrow> options \<Rightarrow> nat \<Rightarrow> nat \<Rightarrow> raw_commit list
   \<Rightarrow> (error + raw_commit list) option" where
  "getCommitsLoop 0 up own rep opts perPage page commits = None"
| "getCommitsLoop (Suc fuel) up own rep opts perPage page commits =
     (case listCommits up own rep (requestParams opts perPage page) of
        Inl m \<Rightarrow> Some (Inl (Error (''Error fetching commits: '' @ m)))
      | Inr pageCommits \<Rightarrow>
          if length pageCommits = 0 then Some (Inr commits)
          else
            (case detailLoop up own rep pageCommits commits of
               Inl (Error m) \<Rightarrow> Some (Inl (Error (''Error fetching commits: '' @ m)))
             | Inr commits' \<Rightarrow>
                 if length pageCommits < perPage then Some (Inr commits')
                 else getCommitsLoop fuel up own rep opts perPage (page + 1) commits'))"

definition getCommits ::
  "nat \<Rightarrow> upstream \<Rightarrow> string \<Rightarrow> string \<Rightarrow> options \<Rightarrow> (error + raw_commit list) option" where
  "getCommits fuel up own rep opts =
     getCommitsLoop fuel up own rep opts (perPageOf opts) 1 []"

text \<open>
  \<open>GitHubService.getCommitsForDateRange\<close>: both dates go into the options as given; the
  author filter is added when it is truthy.
\<close>

definition rangeOptions :: "string \<Rightarrow> string \<Rightarrow> string \<Rightarrow> string option \<Rightarrow> options" where
  "rangeOptions fromDate toDate branch byAuthor =
     \<lparr>opt_per_page = None, opt_branch = Some branch, opt_since = Some fromDate,
      opt_until = Some toDate,
      opt_author = (case byAuthor of None \<Rightarrow> None | Some a \<Rightarrow> if a = '''' then None else Some a)\<rparr>"

definition getCommitsForDateRange ::
  "nat \<Rightarrow> upstream \<Rightarrow> string \<Rightarrow> string \<Rightarrow> string \<Rightarrow> string \<Rightarrow> string \<Rightarrow> string option
   \<Rightarrow> (error + raw_commit list) option" where
  "getCommitsForDateRange fuel up own rep fromDate toDate branch byAuthor =
     getCommits fuel up own rep (rangeOptions fromDate toDate branch byAuthor)"

text \<open>
  \<open>GitHubService.getCommitsForDate\<close>. \<open>addDay\<close> stands for
  \<open>moment(date).add(1, 'day').format('YYYY-MM-DD')\<close> of the moment library.
\<close>

definition getCommitsForDate ::
  "nat \<Rightarrow> (string \<Rightarrow> string) \<Rightarrow> upstream \<Rightarrow> string \<Rightarrow> string \<Rightarrow> string \<Rightarrow> string \<Rightarrow> string option
   \<Rightarrow> (error + raw_commit list) option" where
  "getCommitsForDate fuel addDay up own rep theDay branch byAuthor =
     (let fromDate = theDay; toDate = addDay theDay
      in getCommitsForDateRange fuel up own rep fromDate toDate branch byAuthor)"

subsection \<open>A calendar and an upstream to run the service against\<close>

text \<open>
  The day after a date of the Gregorian calendar written \<open>YYYY-MM-DD\<close> (years below
  9999), the form in which the callers hand dates over. This is what the moment library
  answers for such a date; the other texts moment can read (ISO timestamps among them) are
  outside this calendar, which answers \<open>Invalid date\<close> for every text that is not a date
  of that form. It serves as the \<open>addDay\<close> of the examples, at such dates only.
\<close>

definition leapYear :: "nat \<Rightarrow> bool" where
  "leapYear y = ((y mod 4 = 0 \<and> y mod 100 \<noteq> 0) \<or> y mod 400 = 0)"

definition daysInMonth :: "nat \<Rightarrow> nat \<Rightarrow> nat" where
  "daysInMonth y m =
     (if m = 2 then (if leapYear y then 29 else 28)
      else if m \<in> set [4, 6, 9, 11] then 30 else 31)"

definition nextDay :: "string \<Rightarrow> string" where
  "nextDay s =
     (let y = nat (readDecimal (take 4 s));
          m = nat (readDecimal (take 2 (drop 5 s)));
          d = nat (readDecimal (take 2 (drop 8 s)))
      in if length s = 10 \<and> list_all isDigit (take 4 s @ take 2 (drop 5 s) @ take 2 (drop 8 s))
            \<and> s ! 4 = CHR ''-'' \<and> s ! 7 = CHR ''-''
            \<and> 1 \<le> m \<and> m \<le> 12 \<and> 1 \<le> d \<and> d \<le> daysInMonth y m
         then
           if d < daysInMonth y m then pad4 y @ ''-'' @ pad2 m @ ''-'' @ pad2 (d + 1)
           else if m < 12 then pad4 y @ ''-'' @ pad2 (m + 1) @ ''-01''
           else pad4 (y + 1) @ ''-01-01''
         else ''Invalid date'')"

text \<open>
  An upstream holding a fixed history (newest first), each commit with its timestamp. The
  list endpoint selects the commits whose timestamp lies between \<open>since\<close> and \<open>until\<close>
  (ISO timestamps compare as text) and cuts the selection into pages; the detail endpoint
  looks a commit up by its \<open>sha\<close>.
\<close>

fun textLe :: "string \<Rightarrow> string \<Rightarrow> bool" where
  "textLe [] t = True"
| "textLe (c # s) [] = False"
| "textLe (c # s) (d # t) = ((of_char c :: int) < of_char d \<or> (c = d \<and> textLe s t))"

definition inWindow :: "params \<Rightarrow> string \<Rightarrow> bool" where
  "inWindow p ts =
     ((case q_since p of None \<Rightarrow> True | Some s \<Rightarrow> textLe s ts)
      \<and> (case q_until p of None \<Rightarrow> True | Some u \<Rightarrow> textLe ts u))"

definition historyUpstream :: "(string \<times> api_commit) list \<Rightarrow> upstream" where
  "historyUpstream history =
     \<lparr>listCommits = (\<lambda>own rep p.
        Inr (map (\<lambda>tc. orEmpty (api_sha (snd tc)))
               (take (q_per_page p)
                  (drop ((q_page p - 1) * q_per_page p)
                     (filter (\<lambda>tc. inWindow p (fst tc)) history))))),
      getCommit = (\<lambda>own rep s.
        case find (\<lambda>tc. api_sha (snd tc) = Some s) history of
          None \<Rightarrow> Inl ''Request failed with status code 404''
        | Some tc \<Rightarrow> Inr (snd tc))\<rparr>"



definition apiCommit :: "string \<Rightarrow> string \<Rightarrow> api_commit" where
  "apiCommit s ts =
     \<lparr>api_sha = Some s, api_message = Some (''change '' @ s),
      api_author = \<lparr>raw_name = Some ''John Doe'', raw_email = Some ''john@example.com'',
                    raw_date = Some ts\<rparr>,
      api_committer = \<lparr>raw_name = Some ''John Doe'', raw_email = Some ''john@example.com'',
                       raw_date = Some ts\<rparr>,
      api_files = [\<lparr>api_filename = ''src/auth.js'', api_status = ''modified'',
                    api_additions = Some 8, api_deletions = Some 4, api_changes = Some 12\<rparr>],
      api_stats = \<lparr>raw_total = Some 12, raw_additions = Some 8, raw_deletions = Some 4\<rparr>\<rparr>"

text \<open>Three commits of 15 January 2025, and the options asking for pages of two.\<close>

definition threeCommits :: "(string \<times> api_commit) list" where
  "threeCommits =
     [(''2025-01-15T16:45:12Z'', apiCommit ''c3'' ''2025-01-15T16:45:12Z''),
      (''2025-01-15T14:30:25Z'', apiCommit ''b2'' ''2025-01-15T14:30:25Z''),
      (''2025-01-15T09:10:00Z'', apiCommit ''a1'' ''2025-01-15T09:10:00Z'')]"


text \<open>An upstream that answers a list request only when its \<open>until\<close> is the given date.\<close>

definition onlyUntil :: "string \<Rightarrow> upstream \<Rightarrow> upstream" where
  "onlyUntil u up =
     up\<lparr>listCommits := (\<lambda>own rep p.
          if q_until p = Some u then listCommits up own rep p else Inl ''Network Error'')\<rparr>"

section \<open>Verified properties\<close>


subsection \<open>Commit retrieval\<close>



lemma detailLoop_cong:
  assumes "\<And>s. getCommit up1 own rep s = getCommit up2 own rep s"
  shows "detailLoop up1 own rep shas commits = detailLoop up2 own rep shas commits"
proof -
  have gd: "getCommitDetails up1 own rep s = getCommitDetails up2 own rep s" for s
    by (simp add: getCommitDetails_def assms)
  show ?thesis
    by (induction shas arbitrary: commits) (simp_all add: gd split: sum.splits)
qed

lemma getCommitsLoop_cong:
  assumes "\<And>page. listCommits up1 own rep (requestParams opts1 perPage page)
                   = listCommits up2 own rep (requestParams opts2 perPage page)"
    and "\<And>s. getCommit up1 own rep s = getCommit up2 own rep s"
  shows "getCommitsLoop fuel up1 own rep opts1 perPage page commits
       = getCommitsLoop fuel up2 own rep opts2 perPage page commits"
proof (induction fuel arbitrary: page commits)
  case 0
  show ?case by simp
next
  case (Suc fuel)
  have d: "detailLoop up1 own rep shas commits = detailLoop up2 own rep shas commits" for shas
    by (rule detailLoop_cong) (rule assms(2))
  show ?case
    by (simp add: assms(1) d Suc.IH cong: sum.case_cong split: sum.splits error.splits)
qed





text \<open>
  Every list request of the range fetch carries the caller's to-date as \<open>until\<close>: the
  result depends on the list endpoint only at such queries.
\<close>

lemma range_requests_carry_toDate:
  assumes l: "\<And>p. q_until p = Some toDate \<Longrightarrow> listCommits up1 own rep p = listCommits up2 own rep p"
    and g: "\<And>s. getCommit up1 own rep s = getCommit up2 own rep s"
  shows "getCommitsForDateRange fuel up1 own rep fromDate toDate branch byAuthor
       = getCommitsForDateRange fuel up2 own rep fromDate toDate branch byAuthor"
  unfolding getCommitsForDateRange_def getCommits_def
proof (rule getCommitsLoop_cong)
  fix pg
  have "q_until (requestParams (rangeOptions fromDate toDate branch byAuthor)
          (perPageOf (rangeOptions fromDate toDate branch byAuthor)) pg) = Some toDate"
    by (simp add: requestParams_def rangeOptions_def)
  then show "listCommits up1 own rep
            (requestParams (rangeOptions fromDate toDate branch byAuthor)
               (perPageOf (rangeOptions fromDate toDate branch byAuthor)) pg)
        = listCommits up2 own rep
            (requestParams (rangeOptions fromDate toDate branch byAuthor)
               (perPageOf (rangeOptions fromDate toDate branch byAuthor)) pg)"
    by (rule l)
next
  fix s
  show "getCommit up1 own rep s = getCommit up2 own rep s"
    by (rule g)
qed

text \<open>
  Claim C2 asks that the range fetch send the day after the caller's to-date as \<open>until\<close>.
  The code sends the to-date itself, for every input. At the range a report for
  15 January 2025 asks for, from 2025-01-15 to 2025-01-15, the \<open>until\<close> sent is
  \<open>2025-01-15\<close> and not the day after, \<open>2025-01-16\<close>: an upstream that answers only list
  requests with \<open>until = 2025-01-16\<close> refuses the request, and the three commits of the
  day, which the range to 2025-01-16 returns, are not returned.
\<close>

theorem range_fetch_sends_toDate_itself:
  "q_until (requestParams (rangeOptions fromDate toDate branch byAuthor) perPage page) = Some toDate
   \<and> q_until (requestParams (rangeOptions ''2025-01-15'' ''2025-01-15'' ''main'' None) 100 1)
       = Some ''2025-01-15''
   \<and> nextDay ''2025-01-15'' = ''2025-01-16''
   \<and> getCommitsForDateRange 5 (onlyUntil ''2025-01-16'' (historyUpstream threeCommits))
        ''acme'' ''widgets'' ''2025-01-15'' ''2025-01-15'' ''main'' None
       = Some (Inl (Error ''Error fetching commits: Network Error''))
   \<and> map_option (map_sum id (map raw_sha))
        (getCommitsForDateRange 5 (onlyUntil ''2025-01-16'' (historyUpstream threeCommits))
           ''acme'' ''widgets'' ''2025-01-15'' ''2025-01-16'' ''main'' None)
       = Some (Inr [Some ''c3'', Some ''b2'', Some ''a1''])"
proof -
  have "q_until (requestParams (rangeOptions fromDate toDate branch byAuthor) perPage page)
      = Some toDate"
    by (simp add: requestParams_def rangeOptions_def)
  moreover have "q_until (requestParams (rangeOptions ''2025-01-15'' ''2025-01-15'' ''main'' None) 100 1)
       = Some ''2025-01-15''"
    by (simp add: requestParams_def rangeOptions_def)
  moreover have "nextDay ''2025-01-15'' = ''2025-01-16''"
    by code_simp
  moreover have "getCommitsForDateRange 5 (onlyUntil ''2025-01-16'' (historyUpstream threeCommits))
        ''acme'' ''widgets'' ''2025-01-15'' ''2025-01-15'' ''main'' None
       = Some (Inl (Error ''Error fetching commits: Network Error''))"
    by code_simp
  moreover have "map_option (map_sum id (map raw_sha))
        (getCommitsForDateRange 5 (onlyUntil ''2025-01-16'' (historyUpstream threeCommits))
           ''acme'' ''widgets'' ''2025-01-15'' ''2025-01-16'' ''main'' None)
       = Some (Inr [Some ''c3'', Some ''b2'', Some ''a1''])"
    by code_simp
  ultimately show ?thesis by blast
qed

text \<open>
  Claim C6 asks that the range operation applied to a date twice return the commits the
  single-date operation returns for that date. The single-date operation asks for the
  window up to the day after; the range operation does not. Against an upstream holding
  three commits of 15 January 2025, the range from 2025-01-15 to 2025-01-15 returns none
  of them and the single-date operation for 2025-01-15 returns all three.
\<close>

theorem degenerate_range_loses_the_day:
  "getCommitsForDateRange 5 (historyUpstream threeCommits) ''acme'' ''widgets''
       ''2025-01-15'' ''2025-01-15'' ''main'' None
     = Some (Inr [])
   \<and> map_option (map_sum id (map raw_sha))
        (getCommitsForDate 5 nextDay (historyUpstream threeCommits) ''acme'' ''widgets''
           ''2025-01-15'' ''main'' None)
     = Some (Inr [Some ''c3'', Some ''b2'', Some ''a1''])"
  by code_simp

subsection \<open>Aggregation\<close>

lemma sortDescending_sorted: "sorted_wrt (\<lambda>a b. f b \<le> f a) (sortDescending f xs)"
proof -
  have "sorted (map (\<lambda>x. - f x) (sort_key (\<lambda>x. - f x) xs))"
    by (rule sorted_sort_key)
  then show ?thesis
    by (simp add: sortDescending_def sorted_map)
qed

lemma sortDescending_sorted_nat:
  "sorted_wrt (\<lambda>a b. g b \<le> g a) (sortDescending (\<lambda>x. int (g x)) xs)" for g :: "'a \<Rightarrow> nat"
  using sortDescending_sorted [of "\<lambda>x. int (g x)" xs] by simp

text \<open>
  Claim C3, as the code has it. \<open>getCommitStatistics\<close> returns \<open>topContributors\<close> ranked by
  descending commit count and \<open>fileStatistics\<close> ranked by descending total changes, both
  cut inside the aggregation itself: \<open>topContributors\<close> is the first 5 of the ranking
  (what \<open>Report.getTopContributors\<close> returns for its default limit) and \<open>fileStatistics\<close>
  the first 10 of the ranking that \<open>Report.getFileStatistics\<close> returns whole.
\<close>

theorem statistics_ranked_and_cut:
  "sorted_wrt (\<lambda>a b. c_commits b \<le> c_commits a) (topContributors (getCommitStatistics commits))
   \<and> sorted_wrt (\<lambda>a b. fs_changes b \<le> fs_changes a) (fileStatistics (getCommitStatistics commits))
   \<and> topContributors (getCommitStatistics commits) = getTopContributors commits 5
   \<and> fileStatistics (getCommitStatistics commits) = take 10 (getFileStatistics commits)
   \<and> length (topContributors (getCommitStatistics commits)) \<le> 5
   \<and> length (fileStatistics (getCommitStatistics commits)) \<le> 10
   \<and> sorted_wrt (\<lambda>a b. fs_changes b \<le> fs_changes a) (getFileStatistics commits)"
proof -
  have tc: "topContributors (getCommitStatistics commits) = getTopContributors commits 5"
    by (simp add: getCommitStatistics_def getTopContributors_def Let_def contributorsOf_def
        objectValues_def sortDescending_def)
  have fl: "fileStatistics (getCommitStatistics commits) = take 10 (getFileStatistics commits)"
    by (simp add: getCommitStatistics_def getFileStatistics_def Let_def fileStatsOf_def
        objectValues_def sortDescending_def)
  have s1: "sorted_wrt (\<lambda>a b. c_commits b \<le> c_commits a) (getTopContributors commits 5)"
    unfolding getTopContributors_def
    by (intro sorted_wrt_take sortDescending_sorted_nat)
  have s2: "sorted_wrt (\<lambda>a b. fs_changes b \<le> fs_changes a) (getFileStatistics commits)"
    unfolding getFileStatistics_def by (rule sortDescending_sorted)
  then have s3: "sorted_wrt (\<lambda>a b. fs_changes b \<le> fs_changes a) (take 10 (getFileStatistics commits))"
    by (rule sorted_wrt_take)
  have l1: "length (getTopContributors commits 5) \<le> 5"
    by (simp add: getTopContributors_def)
  have l2: "length (take 10 (getFileStatistics commits)) \<le> 10"
    by simp
  from s1 s2 s3 l1 l2 show ?thesis
    unfolding tc fl by blast
qed

text \<open>
  The six-author history: six contributors and eleven files were rolled up, five and
  ten are returned.
\<close>

theorem statistics_ranked_and_cut_witness:
  "topContributors (getCommitStatistics sixAuthors) = getTopContributors sixAuthors 5
   \<and> map c_name (topContributors (getCommitStatistics sixAuthors))
       = [''ann'', ''bob'', ''cy'', ''dee'', ''eve'']
   \<and> fileStatistics (getCommitStatistics sixAuthors) = take 10 (getFileStatistics sixAuthors)
   \<and> length (getFileStatistics sixAuthors) = 11"
proof -
  have "map c_name (getTopContributors sixAuthors 5) = [''ann'', ''bob'', ''cy'', ''dee'', ''eve'']"
    by code_simp
  moreover have "length (getFileStatistics sixAuthors) = 11"
    by code_simp
  ultimately show ?thesis
    using statistics_ranked_and_cut [of sixAuthors] by simp
qed

text \<open>
  Against C3 as stated: the history has six contributors and eleven changed files, and
  the aggregate returned by \<open>getCommitStatistics\<close> holds five and ten of them.
\<close>

theorem statistics_unbounded_counterexample:
  "length (objectValues (contributorsOf sixAuthors)) = 6
   \<and> length (topContributors (getCommitStatistics sixAuthors)) = 5
   \<and> length (objectValues (fileStatsOf sixAuthors)) = 11
   \<and> length (fileStatistics (getCommitStatistics sixAuthors)) = 10"
  by code_simp

subsection \<open>Text and markdown renderings\<close>

lemma undecorated_append: "undecorated (a @ b) = undecorated a @ undecorated b"
  by (simp add: undecorated_def)

lemma undecorated_Cons:
  "undecorated (c # s) = (if isDecoration c then undecorated s else c # undecorated s)"
  by (simp add: undecorated_def)

lemma undecorated_concat: "undecorated (concat xs) = concat (map undecorated xs)"
  by (induction xs) (simp_all add: undecorated_append undecorated_def)

lemma foldl_append_concat: "foldl (\<lambda>r x. r @ g x) r xs = r @ concat (map g xs)"
  by (induction xs arbitrary: r) simp_all

lemma messageLine_undecorated:
  "undecorated (messageLine ''text'' i c) = undecorated (messageLine ''markdown'' i c)"
  by (simp add: messageLine_def undecorated_def isDecoration_def newline_def Let_def)

lemma authorLine_undecorated:
  "undecorated (authorLine hms ''text'' c) = undecorated (authorLine hms ''markdown'' c)"
  by (simp add: authorLine_def undecorated_def isDecoration_def newline_def Let_def)

lemma changesLine_undecorated:
  "undecorated (changesLine ''text'' c) = undecorated (changesLine ''markdown'' c)"
  by (simp add: changesLine_def undecorated_def isDecoration_def newline_def Let_def)

lemma analysisPart_undecorated:
  "undecorated (analysisPart ''text'' a c) = undecorated (analysisPart ''markdown'' a c)"
  by (simp add: analysisPart_def undecorated_def isDecoration_def newline_def Let_def)

lemma fileLine_undecorated:
  "undecorated (fileLine ''text'' f) = undecorated (fileLine ''markdown'' f)"
  by (simp add: fileLine_def undecorated_def isDecoration_def newline_def Let_def)

lemma separator_undecorated:
  "undecorated (separator ''text'') = undecorated (separator ''markdown'')"
  by (simp add: separator_def undecorated_def isDecoration_def newline_def)

lemma heading_undecorated:
  "undecorated (heading ''text'' d) = undecorated (heading ''markdown'' d)"
  by (simp add: heading_def undecorated_def isDecoration_def newline_def)

lemma changedFiles_listing:
  "changedFiles format c =
     (if files c = [] then []
      else (if format = ''markdown'' then ''**Changed Files:**'' else ''Changed Files:'')
           @ newline @ concat (map (fileLine format) (files c)) @ newline)"
  by (simp add: changedFiles_def foldl_append_concat)

lemma changedFiles_undecorated:
  "undecorated (changedFiles ''text'' c) = undecorated (changedFiles ''markdown'' c)"
proof -
  have "map (undecorated \<circ> fileLine ''text'') (files c)
      = map (undecorated \<circ> fileLine ''markdown'') (files c)"
    by (simp add: fileLine_undecorated)
  then have "undecorated (concat (map (fileLine ''text'') (files c)))
      = undecorated (concat (map (fileLine ''markdown'') (files c)))"
    by (simp only: undecorated_concat map_map)
  then show ?thesis
    by (simp add: changedFiles_listing undecorated_append undecorated_Cons isDecoration_def)
qed

lemma quickBlock_undecorated:
  "undecorated (quickBlock hms ''text'' i d) = undecorated (quickBlock hms ''markdown'' i d)"
  by (simp add: quickBlock_def Let_def undecorated_append messageLine_undecorated
      authorLine_undecorated changesLine_undecorated changedFiles_undecorated
      separator_undecorated)

lemma enhancedBlock_undecorated:
  "undecorated (enhancedBlock hms a ''text'' i d) = undecorated (enhancedBlock hms a ''markdown'' i d)"
  by (simp add: enhancedBlock_def Let_def undecorated_append messageLine_undecorated
      authorLine_undecorated changesLine_undecorated analysisPart_undecorated
      changedFiles_undecorated separator_undecorated)

lemma quickLoop_blocks:
  "quickLoop hms format i ds report
     = report @ concat (map (\<lambda>(k, d). quickBlock hms format k d) (enumerate i ds))"
  by (induction ds arbitrary: i report) simp_all

lemma enhancedLoop_blocks:
  "enhancedLoop hms a format i ds report
     = report @ concat (map (\<lambda>(k, d). enhancedBlock hms a format k d) (enumerate i ds))"
  by (induction ds arbitrary: i report) simp_all

lemma blocks_undecorated:
  assumes "\<And>k d. undecorated (blk1 k d) = undecorated (blk2 k d)"
  shows "undecorated (concat (map (\<lambda>(k, d). blk1 k d) kds))
       = undecorated (concat (map (\<lambda>(k, d). blk2 k d) kds))"
  by (induction kds) (auto simp: undecorated_append assms)

text \<open>
  Claim C4. For every commit list and date-range label, the text and the markdown
  renderings agree once the decoration characters are erased, for the quick and for the
  enhanced report (with any analyzer). Each rendering of a non-empty list is the heading
  followed by one block per commit in the order of the list, and each block lists the
  commit's files in their order; the blocks and the file lines of the two renderings agree
  up to decoration one by one.
\<close>

theorem text_markdown_same_content:
  "undecorated (generateQuickReport hms commits dateRange ''text'')
     = undecorated (generateQuickReport hms commits dateRange ''markdown'')
   \<and> undecorated (generateEnhancedReport hms commits dateRange ''text'' aiAnalyzer)
     = undecorated (generateEnhancedReport hms commits dateRange ''markdown'' aiAnalyzer)
   \<and> (commits \<noteq> [] \<longrightarrow>
        generateQuickReport hms commits dateRange format
          = heading format dateRange
            @ concat (map (\<lambda>(i, d). quickBlock hms format i d) (enumerate 0 commits)))
   \<and> (commits \<noteq> [] \<longrightarrow>
        generateEnhancedReport hms commits dateRange format aiAnalyzer
          = heading format dateRange
            @ concat (map (\<lambda>(i, d). enhancedBlock hms aiAnalyzer format i d) (enumerate 0 commits)))
   \<and> undecorated (quickBlock hms ''text'' i d) = undecorated (quickBlock hms ''markdown'' i d)
   \<and> undecorated (enhancedBlock hms aiAnalyzer ''text'' i d)
     = undecorated (enhancedBlock hms aiAnalyzer ''markdown'' i d)
   \<and> changedFiles format c =
       (if files c = [] then []
        else (if format = ''markdown'' then ''**Changed Files:**'' else ''Changed Files:'')
             @ newline @ concat (map (fileLine format) (files c)) @ newline)
   \<and> undecorated (fileLine ''text'' f) = undecorated (fileLine ''markdown'' f)"
proof -
  have q: "generateQuickReport hms commits dateRange fmt
          = heading fmt dateRange
            @ concat (map (\<lambda>(i, d). quickBlock hms fmt i d) (enumerate 0 commits))"
    if "commits \<noteq> []" for fmt
    using that by (simp add: generateQuickReport_def quickLoop_blocks)
  have e: "generateEnhancedReport hms commits dateRange fmt aiAnalyzer
          = heading fmt dateRange
            @ concat (map (\<lambda>(i, d). enhancedBlock hms aiAnalyzer fmt i d) (enumerate 0 commits))"
    if "commits \<noteq> []" for fmt
    using that by (simp add: generateEnhancedReport_def enhancedLoop_blocks)
  have qu: "undecorated (generateQuickReport hms commits dateRange ''text'')
     = undecorated (generateQuickReport hms commits dateRange ''markdown'')"
  proof (cases "commits = []")
    case True
    then show ?thesis by (simp add: generateQuickReport_def)
  next
    case False
    then show ?thesis
      using blocks_undecorated [of "quickBlock hms ''text''" "quickBlock hms ''markdown''"
          "enumerate 0 commits"]
      by (simp add: q undecorated_append heading_undecorated quickBlock_undecorated)
  qed
  have eu: "undecorated (generateEnhancedReport hms commits dateRange ''text'' aiAnalyzer)
     = undecorated (generateEnhancedReport hms commits dateRange ''markdown'' aiAnalyzer)"
  proof (cases "commits = []")
    case True
    then show ?thesis by (simp add: generateEnhancedReport_def)
  next
    case False
    then show ?thesis
      using blocks_undecorated [of "enhancedBlock hms aiAnalyzer ''text''"
          "enhancedBlock hms aiAnalyzer ''markdown''" "enumerate 0 commits"]
      by (simp add: e undecorated_append heading_undecorated enhancedBlock_undecorated)
  qed
  from qu eu q [of format] e [of format] quickBlock_undecorated [of hms i d]
    enhancedBlock_undecorated [of hms aiAnalyzer i d] changedFiles_listing [of format c]
    fileLine_undecorated [of f]
  show ?thesis by blast
qed

text \<open>
  The two-commit report: the heading, then the block of the first commit, then the block
  of the second; text and markdown agree up to decoration.
\<close>

theorem text_markdown_same_content_witness:
  "[rawAuth, rawFix] \<noteq> []
   \<and> generateQuickReport utcTime [rawAuth, rawFix] ''2025-01-15'' ''text''
       = heading ''text'' ''2025-01-15'' @ quickBlock utcTime ''text'' 0 rawAuth
         @ quickBlock utcTime ''text'' 1 rawFix
   \<and> generateEnhancedReport utcTime [rawAuth, rawFix] ''2025-01-15'' ''markdown'' None
       = heading ''markdown'' ''2025-01-15'' @ enhancedBlock utcTime None ''markdown'' 0 rawAuth
         @ enhancedBlock utcTime None ''markdown'' 1 rawFix
   \<and> undecorated (generateQuickReport utcTime [rawAuth, rawFix] ''2025-01-15'' ''text'')
       = undecorated (generateQuickReport utcTime [rawAuth, rawFix] ''2025-01-15'' ''markdown'')
   \<and> undecorated (generateEnhancedReport utcTime [rawAuth, rawFix] ''2025-01-15'' ''text'' None)
       = undecorated (generateEnhancedReport utcTime [rawAuth, rawFix] ''2025-01-15'' ''markdown'' None)"
  using text_markdown_same_content [where hms = utcTime and commits = "[rawAuth, rawFix]"
      and dateRange = "''2025-01-15''" and format = "''text''" and aiAnalyzer = None]
    text_markdown_same_content [where hms = utcTime and commits = "[rawAuth, rawFix]"
      and dateRange = "''2025-01-15''" and format = "''markdown''" and aiAnalyzer = None]
  by (simp add: enumerate_eq_zip)

subsection \<open>The Commit constructor\<close>

text \<open>
  Claim C5, as the code has it. The constructor checks nothing: it stores the \<open>total\<close> it
  is given (0 when missing), whatever the additions and deletions are, so the constructed
  commit satisfies \<open>total = additions + deletions\<close> exactly when the defaulted input does.
  The stored total is never recomputed: \<open>getSummary\<close> and \<open>toJSON\<close> return it as stored.
\<close>

theorem Commit_total_unchecked:
  "total (stats (Commit (data\<lparr>raw_stats := Some \<lparr>raw_total = t, raw_additions = a, raw_deletions = d\<rparr>\<rparr>)))
     = orZero t
   \<and> (statsInvariant (Commit (data\<lparr>raw_stats := Some \<lparr>raw_total = t, raw_additions = a, raw_deletions = d\<rparr>\<rparr>))
        \<longleftrightarrow> orZero t = orZero a + orZero d)
   \<and> total (stats (Commit (data\<lparr>raw_stats := None\<rparr>))) = 0
   \<and> sum_total (getSummaryChanges (Commit data)) = total (stats (Commit data))
   \<and> stats (toJSON (Commit data)) = stats (Commit data)"
  by (simp add: Commit_def statsInvariant_def getSummaryChanges_def toJSON_def orZero_def)

text \<open>The constructor at the inconsistent data: total 5 is kept beside 1 and 1.\<close>

theorem Commit_total_unchecked_witness:
  "total (stats (Commit (inconsistentData\<lparr>raw_stats := Some \<lparr>raw_total = Some 5, raw_additions = Some 1, raw_deletions = Some 1\<rparr>\<rparr>))) = 5
   \<and> orZero (Some 5) \<noteq> orZero (Some 1) + orZero (Some 1)
   \<and> sum_total (getSummaryChanges (Commit inconsistentData)) = 5"
  using Commit_total_unchecked [where data = inconsistentData and t = "Some 5" and a = "Some 1" and d = "Some 1"]
  by (simp add: orZero_def inconsistentData_def Commit_def)

text \<open>
  Against C5 as stated: construction from the inconsistent data succeeds and yields a
  commit whose total is not the sum of its additions and deletions.
\<close>

theorem Commit_invariant_counterexample:
  "stats (Commit inconsistentData) = \<lparr>total = 5, additions = 1, deletions = 1\<rparr>
   \<and> \<not> statsInvariant (Commit inconsistentData)"
  by (simp add: Commit_def inconsistentData_def statsInvariant_def orZero_def)

subsection \<open>The heuristic categorizer\<close>

lemma startsWith_prefix: "startsWith s p \<longleftrightarrow> prefix p s"
  unfolding startsWith_def
  by (metis append_eq_conv_conj prefix_def take_is_prefix)

lemma includesStr_sublist: "includesStr s p \<longleftrightarrow> sublist p s"
  by (induction s) (auto simp: startsWith_prefix sublist_Cons_right)

lemma sublist_map_same:
  assumes "sublist p s"
  shows "sublist (map f p) (map f s)"
proof -
  from assms obtain ps ss where "s = ps @ p @ ss"
    by (auto simp: sublist_def)
  then have "map f s = map f ps @ map f p @ map f ss" by simp
  then show ?thesis
    unfolding sublist_def by blast
qed

lemma includesStr_toLowerCase:
  assumes "includesStr s p" and "toLowerCase p = p"
  shows "includesStr (toLowerCase s) p"
proof -
  from assms(1) have "sublist (map lowerChar p) (map lowerChar s)"
    by (simp add: includesStr_sublist sublist_map_same)
  with assms(2) show ?thesis
    by (simp add: includesStr_sublist toLowerCase_def)
qed

lemma includesStr_trans: "includesStr s p \<Longrightarrow> includesStr p q \<Longrightarrow> includesStr s q"
  using sublist_order.order_trans by (auto simp: includesStr_sublist)

lemma join_append:
  "xs \<noteq> [] \<Longrightarrow> ys \<noteq> [] \<Longrightarrow> join sep (xs @ ys) = join sep xs @ sep @ join sep ys"
proof (induction sep xs rule: join.induct)
  case (2 sep x)
  then show ?case by (cases ys) auto
qed auto

lemma join_includes_block:
  assumes "blk \<noteq> []"
  shows "includesStr (join sep (pre @ blk @ post)) (join sep blk)"
proof -
  have mid: "sublist (join sep blk) (join sep (blk @ post))"
  proof (cases "post = []")
    case False
    with assms show ?thesis by (simp add: join_append)
  qed simp
  have "sublist (join sep blk) (join sep (pre @ blk @ post))"
  proof (cases "pre = []")
    case True
    with mid show ?thesis by simp
  next
    case False
    with assms have "join sep (pre @ blk @ post) = join sep pre @ sep @ join sep (blk @ post)"
      by (simp add: join_append)
    with mid show ?thesis
      by (metis append.assoc sublist_order.order_trans sublist_append_leftI)
  qed
  then show ?thesis by (simp add: includesStr_sublist)
qed

lemma sublist_across_separator:
  assumes "sublist p (x @ c # rest)" and "c \<notin> set p"
  shows "sublist p x \<or> sublist p rest"
proof -
  from assms(1) consider "sublist p x" | "sublist p (c # rest)"
    | xs1 xs2 where "p = xs1 @ xs2" "suffix xs1 x" "prefix xs2 (c # rest)"
    by (auto simp: sublist_append)
  then show ?thesis
  proof cases
    case 2
    with assms(2) show ?thesis
      by (auto simp: sublist_Cons_right prefix_Cons)
  next
    case 3
    with assms(2) show ?thesis
      by (cases xs2) (auto simp: prefix_Cons)
  qed simp
qed

lemma join_includes_line:
  assumes "includesStr (join [c] ls) p" and "c \<notin> set p" and "p \<noteq> []"
  shows "\<exists>l \<in> set ls. includesStr l p"
  using assms
proof (induction "[c]" ls rule: join.induct)
  case (3 x y ys)
  then have "sublist p (x @ c # join [c] (y # ys))"
    by (simp add: includesStr_sublist)
  then have "sublist p x \<or> sublist p (join [c] (y # ys))"
    using 3(3) by (rule sublist_across_separator)
  with 3 show ?case
    by (auto simp: includesStr_sublist)
qed auto


lemma topicLines_subset:
  "set (topicLines c) \<subseteq>
     set (authBlock @ apiBlock @ uiBlock @ testBlock @ docBlock @ envBlock @ packageBlock)"
  by (auto simp: topicLines_def Let_def)

lemma no_stack_header_in_other_blocks:
  "\<forall>l \<in> set (authBlock @ apiBlock @ uiBlock @ testBlock @ docBlock @ envBlock @ packageBlock
               @ backendBlock @ generalBlock).
     \<not> includesStr l ''* Full-stack development changes''
     \<and> \<not> includesStr l ''* Frontend development changes''"
  by code_simp

lemma no_frontend_header_in_fullStackBlock:
  "\<forall>l \<in> set fullStackBlock. \<not> includesStr l ''* Frontend development changes''"
  by code_simp

lemma analysis_excludes:
  assumes "set (analysisLines c) \<subseteq> S" and "\<forall>l \<in> S. \<not> includesStr l p"
    and "CHR 0x0A \<notin> set p" and "p \<noteq> []"
  shows "\<not> includesStr (generateBasicAnalysis c) p"
proof
  assume "includesStr (generateBasicAnalysis c) p"
  then obtain l where "l \<in> set (analysisLines c)" "includesStr l p"
    unfolding generateBasicAnalysis_def
    using assms(3,4) join_includes_line by blast
  with assms(1,2) show False by blast
qed

lemma analysis_topic_stack:
  assumes "stackLines c \<noteq> []"
  shows "generateBasicAnalysis c = join [CHR 0x0A] (topicLines c @ stackLines c)"
  using assms by (simp add: generateBasicAnalysis_def analysisLines_def Let_def)

text \<open>
  Claim C7. A commit with the file \<open>src/auth/login.js\<close> and the message \<open>add auth\<close>,
  whose other files (if any) match no frontend extension, gets an analysis that contains
  the authentication block and the backend-only block, and contains neither the
  frontend-only nor the full-stack block (not even their first lines).
\<close>

theorem heuristic_auth_backend:
  assumes login: "\<exists>f \<in> set (files c). filename f = ''src/auth/login.js''"
    and msg: "message c = ''add auth''"
    and others: "\<forall>f \<in> set (files c). filename f \<noteq> ''src/auth/login.js'' \<longrightarrow>
                   filesWithExt [''.jsx'', ''.tsx'', ''.vue'', ''.html'', ''.css''] [f] = []"
  shows "includesStr (generateBasicAnalysis c) (join [CHR 0x0A] authBlock)
         \<and> includesStr (generateBasicAnalysis c) (join [CHR 0x0A] backendBlock)
         \<and> \<not> includesStr (generateBasicAnalysis c) ''* Frontend development changes''
         \<and> \<not> includesStr (generateBasicAnalysis c) ''* Full-stack development changes''"
proof -
  have login_lower: "toLowerCase ''src/auth/login.js'' = ''src/auth/login.js''"
    by (simp add: toLowerCase_def isUpperCase_def)
  have front: "frontendFiles c = []"
  proof -
    have "\<forall>f \<in> set (files c). filesWithExt [''.jsx'', ''.tsx'', ''.vue'', ''.html'', ''.css''] [f] = []"
    proof
      fix f assume "f \<in> set (files c)"
      show "filesWithExt [''.jsx'', ''.tsx'', ''.vue'', ''.html'', ''.css''] [f] = []"
      proof (cases "filename f = ''src/auth/login.js''")
        case True
        then show ?thesis
          by (simp add: filesWithExt_def login_lower startsWith_def)
      next
        case False
        with others \<open>f \<in> set (files c)\<close> show ?thesis by blast
      qed
    qed
    then show ?thesis
      unfolding frontendFiles_def filesWithExt_def by (auto simp: filter_empty_conv)
  qed
  from login obtain f where f: "f \<in> set (files c)" "filename f = ''src/auth/login.js''"
    by blast
  have "includesStr (toLowerCase (filename f)) ''.js''"
    using f(2) by (simp add: login_lower startsWith_def)
  with f(1) have be: "backendFiles c \<noteq> []"
    unfolding backendFiles_def filesWithExt_def by (auto simp: filter_empty_conv)
  from front be have stack: "stackLines c = backendBlock"
    by (simp add: stackLines_def)
  have "includesStr (toLowerCase (message c)) ''auth''"
    using msg by (simp add: toLowerCase_def isUpperCase_def startsWith_def)
  then obtain rest where topic: "topicLines c = authBlock @ rest"
    by (simp add: topicLines_def Let_def)
  have out: "generateBasicAnalysis c = join [CHR 0x0A] (topicLines c @ backendBlock)"
    using analysis_topic_stack [of c] stack by (simp add: backendBlock_def)
  have auth: "includesStr (generateBasicAnalysis c) (join [CHR 0x0A] authBlock)"
    using join_includes_block [of authBlock "[CHR 0x0A]" "[]" "rest @ backendBlock"]
    by (simp add: out topic authBlock_def)
  have backend: "includesStr (generateBasicAnalysis c) (join [CHR 0x0A] backendBlock)"
    using join_includes_block [of backendBlock "[CHR 0x0A]" "topicLines c" "[]"]
    by (simp add: out backendBlock_def)
  have lines: "set (analysisLines c) \<subseteq>
      set (authBlock @ apiBlock @ uiBlock @ testBlock @ docBlock @ envBlock @ packageBlock
           @ backendBlock @ generalBlock)"
    using topicLines_subset [of c] stack by (auto simp: analysisLines_def Let_def)
  have no_front: "\<not> includesStr (generateBasicAnalysis c) ''* Frontend development changes''"
    by (rule analysis_excludes [OF lines]) (use no_stack_header_in_other_blocks in simp_all)
  have no_full: "\<not> includesStr (generateBasicAnalysis c) ''* Full-stack development changes''"
    by (rule analysis_excludes [OF lines]) (use no_stack_header_in_other_blocks in simp_all)
  from auth backend no_front no_full show ?thesis by blast
qed


text \<open>
  The commit touching only \<open>src/auth/login.js\<close>: its analysis is exactly the
  authentication block followed by the backend-only block.
\<close>

theorem heuristic_auth_backend_witness:
  "(\<exists>f \<in> set (files authCommit). filename f = ''src/auth/login.js'')
   \<and> message authCommit = ''add auth''
   \<and> generateBasicAnalysis authCommit = join [CHR 0x0A] (authBlock @ backendBlock)
   \<and> includesStr (generateBasicAnalysis authCommit) (join [CHR 0x0A] authBlock)
   \<and> includesStr (generateBasicAnalysis authCommit) (join [CHR 0x0A] backendBlock)
   \<and> \<not> includesStr (generateBasicAnalysis authCommit) ''* Frontend development changes''
   \<and> \<not> includesStr (generateBasicAnalysis authCommit) ''* Full-stack development changes''"
proof -
  have out: "generateBasicAnalysis authCommit = join [CHR 0x0A] (authBlock @ backendBlock)"
    by code_simp
  have h1: "\<exists>f \<in> set (files authCommit). filename f = ''src/auth/login.js''"
    by (simp add: authCommit_def)
  have h2: "message authCommit = ''add auth''"
    by (simp add: authCommit_def)
  have h3: "\<forall>f \<in> set (files authCommit). filename f \<noteq> ''src/auth/login.js'' \<longrightarrow>
              filesWithExt [''.jsx'', ''.tsx'', ''.vue'', ''.html'', ''.css''] [f] = []"
    by (simp add: authCommit_def)
  from heuristic_auth_backend [OF h1 h2 h3] h1 h2 out show ?thesis by blast
qed

text \<open>
  Claim C10. When every changed file name of a commit contains \<open>.jsx\<close>, the extension pass
  puts the whole file set in the backend bucket as well as in the frontend bucket (a name
  with \<open>.jsx\<close> contains \<open>.js\<close>). The analysis of such a commit therefore contains the
  full-stack block as soon as the commit has a file, and never the frontend-only block.
\<close>

theorem jsx_counts_as_backend:
  assumes jsx: "\<forall>f \<in> set (files c). includesStr (filename f) ''.jsx''"
  shows "backendFiles c = files c
         \<and> frontendFiles c = files c
         \<and> (files c \<noteq> [] \<longrightarrow>
              includesStr (generateBasicAnalysis c) (join [CHR 0x0A] fullStackBlock))
         \<and> \<not> includesStr (generateBasicAnalysis c) ''* Frontend development changes''"
proof -
  have lower: "\<forall>f \<in> set (files c). includesStr (toLowerCase (filename f)) ''.jsx''"
    using jsx includesStr_toLowerCase [of _ "''.jsx''"]
    by (simp add: toLowerCase_def isUpperCase_def)
  have js_in_jsx: "includesStr ''.jsx'' ''.js''"
    by (simp add: startsWith_def)
  have lower_js: "\<forall>f \<in> set (files c). includesStr (toLowerCase (filename f)) ''.js''"
    using lower js_in_jsx includesStr_trans by blast
  have b: "backendFiles c = files c"
    unfolding backendFiles_def filesWithExt_def using lower_js by (auto simp: filter_id_conv)
  have f: "frontendFiles c = files c"
    unfolding frontendFiles_def filesWithExt_def using lower by (auto simp: filter_id_conv)
  have full: "includesStr (generateBasicAnalysis c) (join [CHR 0x0A] fullStackBlock)"
    if "files c \<noteq> []"
  proof -
    from that b f have stack: "stackLines c = fullStackBlock"
      by (simp add: stackLines_def)
    then have "generateBasicAnalysis c = join [CHR 0x0A] (topicLines c @ fullStackBlock)"
      using analysis_topic_stack [of c] by (simp add: fullStackBlock_def)
    then show ?thesis
      using join_includes_block [of fullStackBlock "[CHR 0x0A]" "topicLines c" "[]"]
      by (simp add: fullStackBlock_def)
  qed
  have stack_cases: "stackLines c = fullStackBlock \<or> stackLines c = []"
    using b f by (simp add: stackLines_def)
  have lines: "set (analysisLines c) \<subseteq>
      set (authBlock @ apiBlock @ uiBlock @ testBlock @ docBlock @ envBlock @ packageBlock
           @ backendBlock @ generalBlock) \<union> set fullStackBlock"
    using topicLines_subset [of c] stack_cases by (auto simp: analysisLines_def Let_def)
  have "\<not> includesStr (generateBasicAnalysis c) ''* Frontend development changes''"
    by (rule analysis_excludes [OF lines])
      (use no_stack_header_in_other_blocks no_frontend_header_in_fullStackBlock in auto)
  with b f full show ?thesis by blast
qed

text \<open>The commit touching only \<open>App.jsx\<close>.\<close>

theorem jsx_counts_as_backend_witness:
  "map filename (files jsxCommit) = [''App.jsx'']
   \<and> includesStr ''App.jsx'' ''.jsx''
   \<and> backendFiles jsxCommit = files jsxCommit
   \<and> frontendFiles jsxCommit = files jsxCommit
   \<and> includesStr (generateBasicAnalysis jsxCommit) (join [CHR 0x0A] fullStackBlock)
   \<and> \<not> includesStr (generateBasicAnalysis jsxCommit) ''* Frontend development changes''"
proof -
  have fs: "map filename (files jsxCommit) = [''App.jsx'']"
    by (simp add: jsxCommit_def)
  have inc: "includesStr ''App.jsx'' ''.jsx''"
    by (simp add: startsWith_def)
  have h: "\<forall>f \<in> set (files jsxCommit). includesStr (filename f) ''.jsx''"
    by (simp add: jsxCommit_def startsWith_def)
  have ne: "files jsxCommit \<noteq> []"
    by (simp add: jsxCommit_def)
  from jsx_counts_as_backend [OF h] fs inc ne show ?thesis by blast
qed
subsection \<open>Repository references\<close>

lemma split_from_length: "length (split_from sep cur s) = Suc (count_list s sep)"
  by (induction s arbitrary: cur) auto

lemma split_length: "length (split sep s) = Suc (count_list s sep)"
  by (simp add: split_def split_from_length)

lemma replace_first_prefix: "startsWith s p \<Longrightarrow> replace_first p [] s = drop (length p) s"
  by (cases s) (auto simp: startsWith_def)

lemma https_rest:
  assumes "startsWith url ''https://github.com/''"
  shows "replace_first ''https://github.com/'' '''' url = drop 19 url"
proof -
  have "length ''https://github.com/'' = 19" by simp
  with replace_first_prefix [OF assms] show ?thesis by (simp only:)
qed

lemma ssh_rest:
  assumes "startsWith url ''git@github.com:''"
  shows "replace_first ''git@github.com:'' '''' url = drop 15 url"
proof -
  have "length ''git@github.com:'' = 15" by simp
  with replace_first_prefix [OF assms] show ?thesis by (simp only:)
qed

text \<open>
  Claim C8. \<open>extractRepoInfo\<close> resolves \<open>https://github.com/acme/widgets.git\<close> to owner
  \<open>acme\<close> and repository \<open>widgets\<close>, resolves an SSH reference the same way, and raises
  for \<open>not-a-url\<close>. In general it raises exactly when the reference starts with neither
  the HTTPS nor the SSH prefix, or when what remains after the prefix (trimmed of white
  space for HTTPS, with its first \<open>.git\<close> removed for SSH) does not split at \<open>/\<close> into
  exactly two segments, that is, does not hold exactly one \<open>/\<close>.
\<close>

theorem extractRepoInfo_resolves:
  "extractRepoInfo ''https://github.com/acme/widgets.git'' = Inr \<lparr>owner = ''acme'', repo = ''widgets''\<rparr>
   \<and> extractRepoInfo ''git@github.com:microsoft/vscode.git'' = Inr \<lparr>owner = ''microsoft'', repo = ''vscode''\<rparr>
   \<and> extractRepoInfo ''not-a-url'' = Inl (Error ''Invalid GitHub repository URL format'')
   \<and> (isl (extractRepoInfo url) \<longleftrightarrow>
        (\<not> startsWith url ''https://github.com/'' \<and> \<not> startsWith url ''git@github.com:'')
        \<or> (startsWith url ''https://github.com/''
            \<and> count_list (trim (drop 19 url)) CHR ''/'' \<noteq> 1)
        \<or> (\<not> startsWith url ''https://github.com/'' \<and> startsWith url ''git@github.com:''
            \<and> count_list (replace_first ''.git'' '''' (drop 15 url)) CHR ''/'' \<noteq> 1))"
proof -
  have a: "extractRepoInfo ''https://github.com/acme/widgets.git'' = Inr \<lparr>owner = ''acme'', repo = ''widgets''\<rparr>"
    by (simp add: extractRepoInfo_def repoParts_def startsWith_def split_def trim_def isWhiteSpace_def)
  have b: "extractRepoInfo ''git@github.com:microsoft/vscode.git'' = Inr \<lparr>owner = ''microsoft'', repo = ''vscode''\<rparr>"
    by (simp add: extractRepoInfo_def repoParts_def startsWith_def split_def)
  have c: "extractRepoInfo ''not-a-url'' = Inl (Error ''Invalid GitHub repository URL format'')"
    by (simp add: extractRepoInfo_def repoParts_def startsWith_def)
  have d: "isl (extractRepoInfo url) \<longleftrightarrow>
        (\<not> startsWith url ''https://github.com/'' \<and> \<not> startsWith url ''git@github.com:'')
        \<or> (startsWith url ''https://github.com/''
            \<and> count_list (trim (drop 19 url)) CHR ''/'' \<noteq> 1)
        \<or> (\<not> startsWith url ''https://github.com/'' \<and> startsWith url ''git@github.com:''
            \<and> count_list (replace_first ''.git'' '''' (drop 15 url)) CHR ''/'' \<noteq> 1)"
  proof (cases "startsWith url ''https://github.com/''")
    case True
    then show ?thesis
      by (simp add: extractRepoInfo_def repoParts_def split_length https_rest)
  next
    case False
    show ?thesis
    proof (cases "startsWith url ''git@github.com:''")
      case True
      then show ?thesis
        using False by (simp add: extractRepoInfo_def repoParts_def split_length ssh_rest)
    next
      case nossh: False
      then show ?thesis
        using False by (simp add: extractRepoInfo_def repoParts_def)
    qed
  qed
  from a b c d show ?thesis by blast
qed

text \<open>
  The general clause at two references: a trailing slash leaves three segments and is
  refused; an SSH reference without the \<open>.git\<close> suffix is accepted.
\<close>

theorem extractRepoInfo_resolves_witness:
  "isl (extractRepoInfo ''https://github.com/acme/widgets/'')
   \<and> startsWith ''https://github.com/acme/widgets/'' ''https://github.com/''
   \<and> count_list (trim (drop 19 ''https://github.com/acme/widgets/'')) CHR ''/'' = 2
   \<and> \<not> isl (extractRepoInfo ''git@github.com:microsoft/vscode'')
   \<and> \<not> startsWith ''git@github.com:microsoft/vscode'' ''https://github.com/''
   \<and> startsWith ''git@github.com:microsoft/vscode'' ''git@github.com:''
   \<and> count_list (replace_first ''.git'' '''' (drop 15 ''git@github.com:microsoft/vscode'')) CHR ''/'' = 1"
  using extractRepoInfo_resolves [of "''https://github.com/acme/widgets/''"]
    extractRepoInfo_resolves [of "''git@github.com:microsoft/vscode''"]
  by (simp add: startsWith_def trim_def isWhiteSpace_def)


subsection \<open>Filename synthesis\<close>

lemma digitChar_val: "of_char (digitChar d) = (48 + d mod 10 :: nat)"
proof -
  have "d mod 10 = 0 \<or> d mod 10 = 1 \<or> d mod 10 = 2 \<or> d mod 10 = 3 \<or> d mod 10 = 4
      \<or> d mod 10 = 5 \<or> d mod 10 = 6 \<or> d mod 10 = 7 \<or> d mod 10 = 8 \<or> d mod 10 = 9"
    by presburger
  then show ?thesis
    unfolding digitChar_def by (elim disjE) simp_all
qed

lemma digitChar_inj: "digitChar a = digitChar b \<Longrightarrow> a mod 10 = b mod 10"
  by (metis digitChar_val add_left_cancel)

lemma digitChar_not_T: "digitChar d \<noteq> CHR ''T''" "CHR ''T'' \<noteq> digitChar d"
proof -
  show "digitChar d \<noteq> CHR ''T''"
  proof
    assume "digitChar d = CHR ''T''"
    then have "of_char (digitChar d) = (of_char CHR ''T'' :: nat)" by simp
    then have "48 + d mod 10 = (84 :: nat)" by (simp add: digitChar_val)
    then show False by presburger
  qed
  then show "CHR ''T'' \<noteq> digitChar d" by (rule not_sym)
qed

lemma split_from_first:
  "c \<notin> set a \<Longrightarrow> split_from c cur (a @ c # rest) = (rev cur @ a) # split_from c [] rest"
  by (induction a arbitrary: cur) auto

lemma isoDate_day:
  "isoDate now = pad4 (year now) @ ''-'' @ pad2 (month now) @ ''-'' @ pad2 (day now)"
proof -
  let ?d = "pad4 (year now) @ ''-'' @ pad2 (month now) @ ''-'' @ pad2 (day now)"
  have "CHR ''T'' \<notin> set ?d"
    by (simp add: pad4_def pad2_def digitChar_not_T(2))
  then have "split_from CHR ''T'' [] (?d @ CHR ''T'' # rest) = (rev [] @ ?d) # split_from CHR ''T'' [] rest" for rest
    by (rule split_from_first)
  then show ?thesis
    by (simp add: isoDate_def toISOString_def split_def)
qed

lemma mod_100_digits: "n mod 100 = 10 * (n div 10 mod 10) + n mod 10" for n :: nat
  using mod_mult2_eq [of n 10 10] by simp

lemma pad2_inj:
  assumes "pad2 n = pad2 m"
  shows "n mod 100 = m mod 100"
proof -
  from assms have "n div 10 mod 10 = m div 10 mod 10" and "n mod 10 = m mod 10"
    by (auto simp: pad2_def dest: digitChar_inj)
  then show ?thesis
    by (simp add: mod_100_digits)
qed

lemma pad4_inj:
  assumes "pad4 n = pad4 m" and "n < 10000" and "m < 10000"
  shows "n = m"
proof -
  from assms(1) have "pad2 (n div 100) = pad2 (m div 100)" and "pad2 n = pad2 m"
    by (simp_all add: pad4_def pad2_def)
  then have "n div 100 mod 100 = m div 100 mod 100" and "n mod 100 = m mod 100"
    by (auto dest: pad2_inj)
  moreover from assms(2,3) have "n div 100 < 100" "m div 100 < 100" by simp_all
  ultimately have "n div 100 = m div 100" "n mod 100 = m mod 100" by simp_all
  then show ?thesis
    by (metis div_mult_mod_eq)
qed


lemma pad2_inj_range: "pad2 n = pad2 m \<Longrightarrow> n < 100 \<Longrightarrow> m < 100 \<Longrightarrow> n = m"
  using pad2_inj [of n m] by simp

lemma length_pad2: "length (pad2 n) = 2"
  by (simp add: pad2_def)

lemma length_pad4: "length (pad4 n) = 4"
  by (simp add: pad4_def pad2_def)

lemma momentStamp_same_second:
  assumes "clockInRange a" and "clockInRange b"
  shows "momentStamp a = momentStamp b \<longleftrightarrow> sameSecond a b"
proof
  assume "momentStamp a = momentStamp b"
  then have "pad4 (year a) = pad4 (year b)" "pad2 (month a) = pad2 (month b)"
    "pad2 (day a) = pad2 (day b)" "pad2 (hour a) = pad2 (hour b)"
    "pad2 (minute a) = pad2 (minute b)" "pad2 (second a) = pad2 (second b)"
    by (simp_all add: momentStamp_def append_eq_append_conv length_pad2 length_pad4)
  with assms show "sameSecond a b"
    by (auto simp: clockInRange_def sameSecond_def dest: pad4_inj pad2_inj_range)
next
  assume "sameSecond a b"
  then show "momentStamp a = momentStamp b"
    by (simp add: sameSecond_def momentStamp_def)
qed

lemma isoDate_same_day:
  assumes "clockInRange a" and "clockInRange b"
  shows "isoDate a = isoDate b \<longleftrightarrow> sameDay a b"
proof
  assume "isoDate a = isoDate b"
  then have "pad4 (year a) = pad4 (year b)" "pad2 (month a) = pad2 (month b)"
    "pad2 (day a) = pad2 (day b)"
    by (simp_all add: isoDate_day append_eq_append_conv length_pad2 length_pad4)
  with assms show "sameDay a b"
    by (auto simp: clockInRange_def sameDay_def dest: pad4_inj pad2_inj_range)
next
  assume "sameDay a b"
  then show "isoDate a = isoDate b"
    by (simp add: sameDay_def isoDate_day)
qed

text \<open>
  Claim C9, as the code has it. \<open>ReportService.generateFilename\<close> returns
  \<open>{reportType}-report-{dateRange}-{YYYY-MM-DD-HH-mm-ss}.{ext}\<close> where \<open>ext\<close> is \<open>md\<close> for
  \<open>markdown\<close> and \<open>txt\<close> for every other format; its timestamp has second resolution and
  no finer: two runs get the same name exactly when their clock readings agree from the
  year down to the second. \<open>ReportView.generateFilename\<close> returns
  \<open>{reportType}-report-{dateRange}-{YYYY-MM-DD}.{ext}\<close> where \<open>ext\<close> follows the four-entry
  table (\<open>txt\<close>, \<open>md\<close>, \<open>html\<close>, \<open>json\<close>); its timestamp is the day alone: two runs get the
  same name exactly when they fall on the same day.
\<close>

theorem filename_synthesis:
  "ReportService_generateFilename now reportType dateRange format =
     reportType @ ''-report-'' @ dateRange @ ''-'' @ momentStamp now @ ''.''
     @ (if format = ''markdown'' then ''md'' else ''txt'')
   \<and> ReportView_generateFilename now reportType dateRange format =
     reportType @ ''-report-'' @ dateRange @ ''-''
     @ pad4 (year now) @ ''-'' @ pad2 (month now) @ ''-'' @ pad2 (day now) @ ''.''
     @ getFileExtension format
   \<and> getFileExtension ''text'' = ''txt'' \<and> getFileExtension ''markdown'' = ''md''
   \<and> getFileExtension ''html'' = ''html'' \<and> getFileExtension ''json'' = ''json''
   \<and> (clockInRange now \<and> clockInRange later \<longrightarrow>
        (ReportService_generateFilename now reportType dateRange format
           = ReportService_generateFilename later reportType dateRange format
         \<longleftrightarrow> sameSecond now later))
   \<and> (clockInRange now \<and> clockInRange later \<longrightarrow>
        (ReportView_generateFilename now reportType dateRange format
           = ReportView_generateFilename later reportType dateRange format
         \<longleftrightarrow> sameDay now later))"
proof -
  have service: "ReportService_generateFilename t reportType dateRange format =
     reportType @ ''-report-'' @ dateRange @ ''-'' @ momentStamp t @ ''.''
     @ (if format = ''markdown'' then ''md'' else ''txt'')" for t
    by (simp add: ReportService_generateFilename_def)
  have view: "ReportView_generateFilename t reportType dateRange format =
     reportType @ ''-report-'' @ dateRange @ ''-''
     @ pad4 (year t) @ ''-'' @ pad2 (month t) @ ''-'' @ pad2 (day t) @ ''.''
     @ getFileExtension format" for t
    by (simp add: ReportView_generateFilename_def isoDate_day)
  have ext: "getFileExtension ''text'' = ''txt''" "getFileExtension ''markdown'' = ''md''"
    "getFileExtension ''html'' = ''html''" "getFileExtension ''json'' = ''json''"
    by (simp_all add: getFileExtension_def toLowerCase_def isUpperCase_def)
  have second_res: "ReportService_generateFilename now reportType dateRange format
           = ReportService_generateFilename later reportType dateRange format
         \<longleftrightarrow> sameSecond now later"
    if "clockInRange now" "clockInRange later"
  proof -
    have "ReportService_generateFilename now reportType dateRange format
           = ReportService_generateFilename later reportType dateRange format
         \<longleftrightarrow> momentStamp now = momentStamp later"
      by (simp add: service)
    with that show ?thesis
      by (simp add: momentStamp_same_second)
  qed
  have day_res: "ReportView_generateFilename now reportType dateRange format
           = ReportView_generateFilename later reportType dateRange format
         \<longleftrightarrow> sameDay now later"
    if "clockInRange now" "clockInRange later"
  proof -
    have "ReportView_generateFilename now reportType dateRange format
           = ReportView_generateFilename later reportType dateRange format
         \<longleftrightarrow> isoDate now = isoDate later"
      by (simp add: ReportView_generateFilename_def)
    with that show ?thesis
      by (simp add: isoDate_same_day)
  qed
  from service [of now] view [of now] ext second_res day_res show ?thesis by blast
qed

text \<open>
  From \<open>ReportService\<close>, two instants fifteen seconds apart get distinct names and two
  instants of one second the same name; from \<open>ReportView\<close>, all three get the same name.
\<close>

theorem filename_synthesis_witness:
  "clockInRange afternoon \<and> clockInRange afternoonLater \<and> clockInRange afternoonSameSecond
   \<and> \<not> sameSecond afternoon afternoonLater \<and> sameSecond afternoon afternoonSameSecond
   \<and> sameDay afternoon afternoonLater
   \<and> ReportService_generateFilename afternoon ''quick'' ''2025-01-15'' ''markdown''
      = ''quick-report-2025-01-15-2025-01-15-14-30-25.md''
   \<and> ReportService_generateFilename afternoon ''quick'' ''2025-01-15'' ''markdown''
      \<noteq> ReportService_generateFilename afternoonLater ''quick'' ''2025-01-15'' ''markdown''
   \<and> ReportService_generateFilename afternoon ''quick'' ''2025-01-15'' ''markdown''
      = ReportService_generateFilename afternoonSameSecond ''quick'' ''2025-01-15'' ''markdown''
   \<and> ReportView_generateFilename afternoon ''quick'' ''2025-01-15'' ''markdown''
      = ReportView_generateFilename afternoonLater ''quick'' ''2025-01-15'' ''markdown''"
proof -
  have h: "clockInRange afternoon" "clockInRange afternoonLater" "clockInRange afternoonSameSecond"
    by (simp_all add: clockInRange_def afternoon_def afternoonLater_def afternoonSameSecond_def)
  have r: "\<not> sameSecond afternoon afternoonLater" "sameSecond afternoon afternoonSameSecond"
    "sameDay afternoon afternoonLater"
    by (simp_all add: sameSecond_def sameDay_def afternoon_def afternoonLater_def
        afternoonSameSecond_def)
  have v: "ReportService_generateFilename afternoon ''quick'' ''2025-01-15'' ''markdown''
      = ''quick-report-2025-01-15-2025-01-15-14-30-25.md''"
    by (simp add: ReportService_generateFilename_def momentStamp_def afternoon_def pad2_def
        pad4_def digitChar_def)
  from filename_synthesis [where now = afternoon and later = afternoonLater
      and reportType = "''quick''" and dateRange = "''2025-01-15''" and format = "''markdown''"]
    filename_synthesis [where now = afternoon and later = afternoonSameSecond
      and reportType = "''quick''" and dateRange = "''2025-01-15''" and format = "''markdown''"]
    h r v show ?thesis by blast
qed

text \<open>
  Against C9 as stated: \<open>ReportService\<close> names an \<open>html\<close> and a \<open>json\<close> report \<open>.txt\<close> and
  gives one name to two runs within one second; \<open>ReportView\<close> gives one name to two runs
  fifteen seconds apart.
\<close>

theorem filename_synthesis_counterexample:
  "ReportService_generateFilename afternoon ''quick'' ''2025-01-15'' ''html''
     = ''quick-report-2025-01-15-2025-01-15-14-30-25.txt''
   \<and> ReportService_generateFilename afternoon ''quick'' ''2025-01-15'' ''json''
     = ''quick-report-2025-01-15-2025-01-15-14-30-25.txt''
   \<and> afternoon \<noteq> afternoonSameSecond
   \<and> ReportService_generateFilename afternoon ''quick'' ''2025-01-15'' ''text''
     = ReportService_generateFilename afternoonSameSecond ''quick'' ''2025-01-15'' ''text''
   \<and> afternoon \<noteq> afternoonLater
   \<and> ReportView_generateFilename afternoon ''quick'' ''2025-01-15'' ''text''
     = ReportView_generateFilename afternoonLater ''quick'' ''2025-01-15'' ''text''"
  by (simp add: ReportService_generateFilename_def ReportView_generateFilename_def
      momentStamp_def isoDate_def toISOString_def split_def afternoon_def afternoonLater_def
      afternoonSameSecond_def pad2_def pad4_def digitChar_def)

end
